theory Spec2Isabelle
  imports Main "HOL-Library.AList" "HOL-Library.Char_ord" "HOL-Library.List_Lexorder"
begin

section \<open>Untyped documents\<close>

text \<open>
  A YAML file, once parsed, is a Python value built from \<open>None\<close>, booleans, integers,
  strings, lists and dicts. A dict keeps its keys in insertion order, so it is an
  association list; the keys of a parsed mapping are pairwise distinct.
\<close>

datatype yaml =
    YNull
  | YBool bool
  | YInt int
  | YStr string
  | YList "yaml list"
  | YDict "(string \<times> yaml) list"

type_synonym doc = "(string \<times> yaml) list"

text \<open>Python truthiness, as \<open>if not x\<close> and \<open>x or y\<close> test it.\<close>

fun truthy :: "yaml \<Rightarrow> bool" where
  "truthy YNull = False"
| "truthy (YBool b) = b"
| "truthy (YInt n) = (n \<noteq> 0)"
| "truthy (YStr s) = (s \<noteq> [])"
| "truthy (YList xs) = (xs \<noteq> [])"
| "truthy (YDict d) = (d \<noteq> [])"

text \<open>
  Python's \<open>v == k\<close> for an integer literal \<open>k\<close>: an integer equals it by value, and a
  boolean is the integer 0 or 1. No other value of a document equals an integer.
\<close>

fun py_eq_int :: "yaml \<Rightarrow> int \<Rightarrow> bool" where
  "py_eq_int (YInt n) k = (n = k)"
| "py_eq_int (YBool b) k = ((if b then 1 else 0) = k)"
| "py_eq_int _ k = False"

fun isinstance_str :: "yaml \<Rightarrow> bool" where
  "isinstance_str (YStr s) = True"
| "isinstance_str _ = False"

text \<open>Exceptions that leave the functions below.\<close>

datatype exn =
    ValidationError "string list"
  | TypeError
  | RuntimeError
  | Raised string

section \<open>The typed configuration\<close>

record IgnoredMatch =
  name :: string
  match :: string

record SecretConfig =
  show_secrets :: bool
  ignored_detectors :: "string set"
  ignored_matches :: "IgnoredMatch list"
  ignored_paths :: "string set"

text \<open>
  \<open>SecretConfig.add_ignored_match\<close>: the loop returns at the first entry with the same
  hash, naming it when it has no name; the append is reached only when the loop ends.
\<close>

fun add_ignored_match_loop :: "IgnoredMatch list \<Rightarrow> IgnoredMatch \<Rightarrow> IgnoredMatch list" where
  "add_ignored_match_loop [] secret = [secret]"
| "add_ignored_match_loop (m # ms) secret =
     (if match m = match secret
      then (if name m = [] then m\<lparr>name := name secret\<rparr> # ms else m # ms)
      else m # add_ignored_match_loop ms secret)"

definition add_ignored_match :: "SecretConfig \<Rightarrow> IgnoredMatch \<Rightarrow> SecretConfig" where
  "add_ignored_match self secret =
     self\<lparr>ignored_matches := add_ignored_match_loop (ignored_matches self) secret\<rparr>"

record IaCConfig =
  iac_ignored_paths :: "string set"
  ignored_policies :: "string set"
  minimum_severity :: string

text \<open>The field \<open>instance\<close> of the source is \<open>instance_url\<close> here.\<close>

record UserConfig =
  iac :: IaCConfig
  instance_url :: "string option"
  exit_zero :: bool
  verbose :: bool
  allow_self_signed :: bool
  max_commits_for_hook :: int
  secret :: SecretConfig

record UserV1Config =
  v1_instance :: "string option"
  all_policies :: bool
  v1_exit_zero :: bool
  matches_ignore :: "IgnoredMatch list"
  paths_ignore :: "string set"
  v1_verbose :: bool
  v1_allow_self_signed :: bool
  v1_max_commits_for_hook :: int
  ignore_default_excludes :: bool
  v1_show_secrets :: bool
  banlisted_detectors :: "string set"

definition CURRENT_CONFIG_VERSION :: int where
  "CURRENT_CONFIG_VERSION = 2"

section \<open>Collaborators outside the module\<close>

text \<open>
  The module imports helpers and constants that it does not define. The ones whose
  behaviour the specification does not fix are parameters of the model:
  \<^item> \<open>post_init_ignored_match\<close> receives an entry in \<open>SecretConfig.__post_init__\<close>; it
    may change the entry in place or raise;
  \<^item> \<open>dashboard_url_of\<close> is the conversion inside \<open>api_to_dashboard_url\<close>: it receives
    the \<open>api_url\<close> value and returns the dashboard URL or raises;
  \<^item> \<open>api_url_deprecation_warning\<close> is the text of the warning of that helper;
  \<^item> \<open>get_global_path\<close> and the three path constants;
  \<^item> \<open>unknown_raise\<close>: whether the generated schemas reject a key that is not a
    declared field (marshmallow's \<open>RAISE\<close>) or drop it (\<open>EXCLUDE\<close>).
\<close>

record externals =
  post_init_ignored_match :: "IgnoredMatch \<Rightarrow> exn + IgnoredMatch"
  dashboard_url_of :: "yaml \<Rightarrow> exn + string"
  api_url_deprecation_warning :: string
  get_global_path :: "string \<Rightarrow> string"
  GLOBAL_CONFIG_FILENAMES :: "string list"
  LOCAL_CONFIG_PATHS :: "string list"
  DEFAULT_LOCAL_CONFIG_PATH :: string
  unknown_raise :: bool

definition and_then :: "'e + 'a \<Rightarrow> ('a \<Rightarrow> 'e + 'b) \<Rightarrow> 'e + 'b" where
  "and_then r f = (case r of Inl e \<Rightarrow> Inl e | Inr x \<Rightarrow> f x)"

section \<open>Construction with defaults\<close>

text \<open>\<open>SecretConfig.__post_init__\<close> passes every entry to \<open>post_init_ignored_match\<close>.\<close>

fun post_init_all ::
  "(IgnoredMatch \<Rightarrow> exn + IgnoredMatch) \<Rightarrow> IgnoredMatch list \<Rightarrow> exn + IgnoredMatch list" where
  "post_init_all f [] = Inr []"
| "post_init_all f (m # ms) =
     and_then (f m) (\<lambda>m'. and_then (post_init_all f ms) (\<lambda>ms'. Inr (m' # ms')))"

definition SecretConfig_init ::
  "externals \<Rightarrow> bool \<Rightarrow> string set \<Rightarrow> IgnoredMatch list \<Rightarrow> string set \<Rightarrow> exn + SecretConfig" where
  "SecretConfig_init ext ss detectors matches paths =
     and_then (post_init_all (post_init_ignored_match ext) matches)
       (\<lambda>matches'. Inr \<lparr>show_secrets = ss, ignored_detectors = detectors,
                         ignored_matches = matches', ignored_paths = paths\<rparr>)"

text \<open>The instances built from the field defaults alone: no entry is post-initialised.\<close>

definition SecretConfig_default :: SecretConfig where
  "SecretConfig_default =
     \<lparr>show_secrets = False, ignored_detectors = {}, ignored_matches = [], ignored_paths = {}\<rparr>"

definition IaCConfig_default :: IaCConfig where
  "IaCConfig_default =
     \<lparr>iac_ignored_paths = {}, ignored_policies = {}, minimum_severity = ''LOW''\<rparr>"

definition UserConfig_default :: UserConfig where
  "UserConfig_default =
     \<lparr>iac = IaCConfig_default, instance_url = None, exit_zero = False, verbose = False,
      allow_self_signed = False, max_commits_for_hook = 50, secret = SecretConfig_default\<rparr>"

section \<open>Schemas: loading a document\<close>

text \<open>
  Modelled from the spec: the schema classes are generated by \<open>marshmallow_dataclass\<close>
  from the dataclass declarations, and the \<open>IgnoredMatch\<close> type is declared outside the
  module. Loading types every field strictly (a value of the wrong type fails), gives a
  missing field its default, and fails with a \<open>ValidationError\<close> that carries the path
  of the field: the first invalid one in declaration order. An \<open>IgnoredMatch\<close> is a
  mapping with the string fields \<open>name\<close> and \<open>match\<close>.
\<close>

definition load_bool :: "string list \<Rightarrow> yaml \<Rightarrow> exn + bool" where
  "load_bool path v = (case v of YBool b \<Rightarrow> Inr b | _ \<Rightarrow> Inl (ValidationError path))"

definition load_int :: "string list \<Rightarrow> yaml \<Rightarrow> exn + int" where
  "load_int path v = (case v of YInt n \<Rightarrow> Inr n | _ \<Rightarrow> Inl (ValidationError path))"

definition load_str :: "string list \<Rightarrow> yaml \<Rightarrow> exn + string" where
  "load_str path v = (case v of YStr s \<Rightarrow> Inr s | _ \<Rightarrow> Inl (ValidationError path))"

definition load_optional_str :: "string list \<Rightarrow> yaml \<Rightarrow> exn + string option" where
  "load_optional_str path v =
     (case v of YNull \<Rightarrow> Inr None | YStr s \<Rightarrow> Inr (Some s) | _ \<Rightarrow> Inl (ValidationError path))"

fun load_each :: "(yaml \<Rightarrow> exn + 'a) \<Rightarrow> yaml list \<Rightarrow> exn + 'a list" where
  "load_each f [] = Inr []"
| "load_each f (v # vs) =
     and_then (f v) (\<lambda>x. and_then (load_each f vs) (\<lambda>xs. Inr (x # xs)))"

definition load_list :: "string list \<Rightarrow> (yaml \<Rightarrow> exn + 'a) \<Rightarrow> yaml \<Rightarrow> exn + 'a list" where
  "load_list path f v =
     (case v of YList vs \<Rightarrow> load_each f vs | _ \<Rightarrow> Inl (ValidationError path))"

definition load_str_set :: "string list \<Rightarrow> yaml \<Rightarrow> exn + string set" where
  "load_str_set path v = and_then (load_list path (load_str path) v) (\<lambda>xs. Inr (set xs))"

definition check_unknown :: "externals \<Rightarrow> string list \<Rightarrow> string list \<Rightarrow> doc \<Rightarrow> exn + unit" where
  "check_unknown ext path declared data =
     (case filter (\<lambda>k. k \<notin> set declared) (map fst data) of
        [] \<Rightarrow> Inr ()
      | k # ks \<Rightarrow> if unknown_raise ext then Inl (ValidationError (path @ [k])) else Inr ())"

definition load_field :: "doc \<Rightarrow> string \<Rightarrow> (yaml \<Rightarrow> exn + 'a) \<Rightarrow> 'a \<Rightarrow> exn + 'a" where
  "load_field data key f dflt = (case map_of data key of None \<Rightarrow> Inr dflt | Some v \<Rightarrow> f v)"

definition load_required :: "string list \<Rightarrow> doc \<Rightarrow> string \<Rightarrow> (yaml \<Rightarrow> exn + 'a) \<Rightarrow> exn + 'a" where
  "load_required path data key f =
     (case map_of data key of None \<Rightarrow> Inl (ValidationError path) | Some v \<Rightarrow> f v)"

definition load_nested :: "string list \<Rightarrow> (doc \<Rightarrow> exn + 'a) \<Rightarrow> yaml \<Rightarrow> exn + 'a" where
  "load_nested path f v = (case v of YDict d \<Rightarrow> f d | _ \<Rightarrow> Inl (ValidationError path))"

definition load_ignored_match :: "externals \<Rightarrow> string list \<Rightarrow> yaml \<Rightarrow> exn + IgnoredMatch" where
  "load_ignored_match ext path =
     load_nested path (\<lambda>d.
       and_then (check_unknown ext path [''name'', ''match''] d) (\<lambda>_.
       and_then (load_required (path @ [''name'']) d ''name'' (load_str (path @ [''name'']))) (\<lambda>n.
       and_then (load_required (path @ [''match'']) d ''match'' (load_str (path @ [''match'']))) (\<lambda>h.
       Inr \<lparr>name = n, match = h\<rparr>))))"

definition SecretConfigSchema_load :: "externals \<Rightarrow> string list \<Rightarrow> doc \<Rightarrow> exn + SecretConfig" where
  "SecretConfigSchema_load ext path data =
     and_then (check_unknown ext path
                 [''show_secrets'', ''ignored_detectors'', ''ignored_matches'', ''ignored_paths''] data) (\<lambda>_.
     and_then (load_field data ''show_secrets'' (load_bool (path @ [''show_secrets''])) False) (\<lambda>ss.
     and_then (load_field data ''ignored_detectors''
                 (load_str_set (path @ [''ignored_detectors''])) {}) (\<lambda>detectors.
     and_then (load_field data ''ignored_matches''
                 (load_list (path @ [''ignored_matches''])
                    (load_ignored_match ext (path @ [''ignored_matches'']))) []) (\<lambda>matches.
     and_then (load_field data ''ignored_paths'' (load_str_set (path @ [''ignored_paths''])) {}) (\<lambda>paths.
     SecretConfig_init ext ss detectors matches paths)))))"

definition IaCConfigSchema_load :: "externals \<Rightarrow> string list \<Rightarrow> doc \<Rightarrow> exn + IaCConfig" where
  "IaCConfigSchema_load ext path data =
     and_then (check_unknown ext path
                 [''ignored_paths'', ''ignored_policies'', ''minimum_severity''] data) (\<lambda>_.
     and_then (load_field data ''ignored_paths'' (load_str_set (path @ [''ignored_paths''])) {}) (\<lambda>paths.
     and_then (load_field data ''ignored_policies''
                 (load_str_set (path @ [''ignored_policies''])) {}) (\<lambda>policies.
     and_then (load_field data ''minimum_severity''
                 (load_str (path @ [''minimum_severity''])) ''LOW'') (\<lambda>severity.
     Inr \<lparr>iac_ignored_paths = paths, ignored_policies = policies,
          minimum_severity = severity\<rparr>))))"

definition UserConfigSchema_load :: "externals \<Rightarrow> doc \<Rightarrow> exn + UserConfig" where
  "UserConfigSchema_load ext data =
     and_then (check_unknown ext []
                 [''iac'', ''instance'', ''exit_zero'', ''verbose'', ''allow_self_signed'',
                  ''max_commits_for_hook'', ''secret''] data) (\<lambda>_.
     and_then (load_field data ''iac''
                 (load_nested [''iac''] (IaCConfigSchema_load ext [''iac''])) IaCConfig_default) (\<lambda>i.
     and_then (load_field data ''instance'' (load_optional_str [''instance'']) None) (\<lambda>inst.
     and_then (load_field data ''exit_zero'' (load_bool [''exit_zero'']) False) (\<lambda>ez.
     and_then (load_field data ''verbose'' (load_bool [''verbose'']) False) (\<lambda>vb.
     and_then (load_field data ''allow_self_signed'' (load_bool [''allow_self_signed'']) False) (\<lambda>ass.
     and_then (load_field data ''max_commits_for_hook''
                 (load_int [''max_commits_for_hook'']) 50) (\<lambda>mc.
     and_then (load_field data ''secret''
                 (load_nested [''secret''] (SecretConfigSchema_load ext [''secret'']))
                 SecretConfig_default) (\<lambda>s.
     Inr \<lparr>iac = i, instance_url = inst, exit_zero = ez, verbose = vb, allow_self_signed = ass,
          max_commits_for_hook = mc, secret = s\<rparr>))))))))"

definition UserV1ConfigSchema_load :: "externals \<Rightarrow> doc \<Rightarrow> exn + UserV1Config" where
  "UserV1ConfigSchema_load ext data =
     and_then (check_unknown ext []
                 [''instance'', ''all_policies'', ''exit_zero'', ''matches_ignore'', ''paths_ignore'',
                  ''verbose'', ''allow_self_signed'', ''max_commits_for_hook'',
                  ''ignore_default_excludes'', ''show_secrets'', ''banlisted_detectors''] data) (\<lambda>_.
     and_then (load_field data ''instance'' (load_optional_str [''instance'']) None) (\<lambda>inst.
     and_then (load_field data ''all_policies'' (load_bool [''all_policies'']) False) (\<lambda>ap.
     and_then (load_field data ''exit_zero'' (load_bool [''exit_zero'']) False) (\<lambda>ez.
     and_then (load_field data ''matches_ignore''
                 (load_list [''matches_ignore''] (load_ignored_match ext [''matches_ignore''])) []) (\<lambda>mi.
     and_then (load_field data ''paths_ignore'' (load_str_set [''paths_ignore'']) {}) (\<lambda>pi.
     and_then (load_field data ''verbose'' (load_bool [''verbose'']) False) (\<lambda>vb.
     and_then (load_field data ''allow_self_signed'' (load_bool [''allow_self_signed'']) False) (\<lambda>ass.
     and_then (load_field data ''max_commits_for_hook''
                 (load_int [''max_commits_for_hook'']) 50) (\<lambda>mc.
     and_then (load_field data ''ignore_default_excludes''
                 (load_bool [''ignore_default_excludes'']) False) (\<lambda>ide.
     and_then (load_field data ''show_secrets'' (load_bool [''show_secrets'']) False) (\<lambda>ss.
     and_then (load_field data ''banlisted_detectors''
                 (load_str_set [''banlisted_detectors'']) {}) (\<lambda>bd.
     Inr \<lparr>v1_instance = inst, all_policies = ap, v1_exit_zero = ez, matches_ignore = mi,
          paths_ignore = pi, v1_verbose = vb, v1_allow_self_signed = ass,
          v1_max_commits_for_hook = mc, ignore_default_excludes = ide, v1_show_secrets = ss,
          banlisted_detectors = bd\<rparr>))))))))))))"

section \<open>Version 1: hash-only ignored matches\<close>

definition hash_only_match :: "yaml \<Rightarrow> yaml" where
  "hash_only_match m = YDict [(''name'', YStr ''''), (''match'', m)]"

text \<open>
  The loop of \<open>update_matches_ignore\<close> walks the list by index and assigns into it;
  an assignment keeps the length, so the index reaches the end.
\<close>

function update_matches_ignore_loop :: "nat \<Rightarrow> yaml list \<Rightarrow> yaml list" where
  "update_matches_ignore_loop idx xs =
     (if idx < length xs
      then update_matches_ignore_loop (Suc idx)
             (if isinstance_str (xs ! idx) then xs[idx := hash_only_match (xs ! idx)] else xs)
      else xs)"
  by pat_completeness auto
termination
  by (relation "measure (\<lambda>(idx, xs). length xs - idx)") auto

declare update_matches_ignore_loop.simps [simp del]

text \<open>
  \<open>update_matches_ignore\<close> mutates the list held by the dict. Where the value is truthy
  and not a list, Python fails: a string rejects the item assignment and an integer or
  a boolean cannot be enumerated (TypeError), and assigning key \<open>idx\<close> into a dict
  while iterating over it changes its size (RuntimeError).
\<close>

definition update_matches_ignore :: "doc \<Rightarrow> exn + doc" where
  "update_matches_ignore data =
     (case map_of data ''matches_ignore'' of
        None \<Rightarrow> Inr data
      | Some entries \<Rightarrow>
          if \<not> truthy entries then Inr data
          else (case entries of
                  YList xs \<Rightarrow>
                    Inr (AList.update ''matches_ignore''
                           (YList (update_matches_ignore_loop 0 xs)) data)
                | YDict d \<Rightarrow> Inl RuntimeError
                | _ \<Rightarrow> Inl TypeError))"

text \<open>
  What the claim about \<open>update_matches_ignore\<close> asks of one entry, in its own words:
  a bare string becomes an object with an empty name, anything else stays.
\<close>

fun normalized_entry_spec :: "yaml \<Rightarrow> yaml" where
  "normalized_entry_spec (YStr s) = YDict [(''name'', YStr ''''), (''match'', YStr s)]"
| "normalized_entry_spec v = v"

section \<open>Schemas: dumping an instance\<close>

text \<open>
  Modelled from the spec: \<open>dump\<close> of the generated schemas writes the declared fields
  in declaration order, in the shape the validator reads. A set is written as the list
  of its elements; the order Python gives them is not fixed, the model writes them sorted.
\<close>

definition dump_optional_str :: "string option \<Rightarrow> yaml" where
  "dump_optional_str v = (case v of None \<Rightarrow> YNull | Some s \<Rightarrow> YStr s)"

definition dump_str_set :: "string set \<Rightarrow> yaml" where
  "dump_str_set S = YList (map YStr (sorted_list_of_set S))"

definition dump_ignored_match :: "IgnoredMatch \<Rightarrow> yaml" where
  "dump_ignored_match m = YDict [(''name'', YStr (name m)), (''match'', YStr (match m))]"

definition SecretConfigSchema_dump :: "SecretConfig \<Rightarrow> doc" where
  "SecretConfigSchema_dump s =
     [(''show_secrets'', YBool (show_secrets s)),
      (''ignored_detectors'', dump_str_set (ignored_detectors s)),
      (''ignored_matches'', YList (map dump_ignored_match (ignored_matches s))),
      (''ignored_paths'', dump_str_set (ignored_paths s))]"

definition IaCConfigSchema_dump :: "IaCConfig \<Rightarrow> doc" where
  "IaCConfigSchema_dump i =
     [(''ignored_paths'', dump_str_set (iac_ignored_paths i)),
      (''ignored_policies'', dump_str_set (ignored_policies i)),
      (''minimum_severity'', YStr (minimum_severity i))]"

definition UserConfigSchema_dump :: "UserConfig \<Rightarrow> doc" where
  "UserConfigSchema_dump c =
     [(''iac'', YDict (IaCConfigSchema_dump (iac c))),
      (''instance'', dump_optional_str (instance_url c)),
      (''exit_zero'', YBool (exit_zero c)),
      (''verbose'', YBool (verbose c)),
      (''allow_self_signed'', YBool (allow_self_signed c)),
      (''max_commits_for_hook'', YInt (max_commits_for_hook c)),
      (''secret'', YDict (SecretConfigSchema_dump (secret c)))]"

section \<open>Helpers of the configuration package\<close>

text \<open>
  Modelled from the spec: \<open>remove_common_dict_items\<close> is imported from
  \<open>ggshield.core.config.utils\<close>. It removes from the document every key whose value
  equals the reference's value at the same path, recursing into nested mappings and
  dropping a nested mapping that becomes empty.
\<close>

function (sequential) remove_common_dict_items :: "doc \<Rightarrow> doc \<Rightarrow> doc" where
  "remove_common_dict_items [] reference_dct = []"
| "remove_common_dict_items ((key, YDict d) # rest) reference_dct =
     (case map_of reference_dct key of
        Some (YDict r) \<Rightarrow>
          (let d' = remove_common_dict_items d r
           in if d' = [] then remove_common_dict_items rest reference_dct
              else (key, YDict d') # remove_common_dict_items rest reference_dct)
      | _ \<Rightarrow> (key, YDict d) # remove_common_dict_items rest reference_dct)"
| "remove_common_dict_items ((key, v) # rest) reference_dct =
     (if map_of reference_dct key = Some v then remove_common_dict_items rest reference_dct
      else (key, v) # remove_common_dict_items rest reference_dct)"
  by pat_completeness auto
termination
  by (relation "measure (\<lambda>(dct, reference_dct). size (YDict dct))") auto

text \<open>
  Modelled from the spec: \<open>update_from_other_instance\<close> is imported from
  \<open>ggshield.core.config.utils\<close>. It copies every declared field of the loaded instance
  onto the accumulator, recursively into the two nested configurations, unconditionally.
\<close>

definition update_from_other_instance :: "UserConfig \<Rightarrow> UserConfig \<Rightarrow> UserConfig" where
  "update_from_other_instance dst src =
     dst\<lparr>iac := (iac dst)\<lparr>iac_ignored_paths := iac_ignored_paths (iac src),
                          ignored_policies := ignored_policies (iac src),
                          minimum_severity := minimum_severity (iac src)\<rparr>,
         instance_url := instance_url src,
         exit_zero := exit_zero src,
         verbose := verbose src,
         allow_self_signed := allow_self_signed src,
         max_commits_for_hook := max_commits_for_hook src,
         secret := (secret dst)\<lparr>show_secrets := show_secrets (secret src),
                                ignored_detectors := ignored_detectors (secret src),
                                ignored_matches := ignored_matches (secret src),
                                ignored_paths := ignored_paths (secret src)\<rparr>\<rparr>"

text \<open>
  Modelled from the spec: \<open>load_yaml\<close> and \<open>save_yaml\<close> are imported from
  \<open>ggshield.core.config.utils\<close>. A file holds invalid YAML, nothing, or a mapping.
  Reading a path without a file or an empty file gives no document, invalid syntax is
  a \<open>ParseError\<close>, and saving replaces the file by the document.
\<close>

datatype file_content = InvalidSyntax | Empty | Mapping doc

type_synonym filesystem = "string \<Rightarrow> file_content option"

datatype error =
    Exception exn
  | ParseError string "string list"
  | ClickException yaml

definition load_yaml :: "filesystem \<Rightarrow> string \<Rightarrow> error + doc option" where
  "load_yaml fs path =
     (case fs path of
        None \<Rightarrow> Inr None
      | Some InvalidSyntax \<Rightarrow> Inl (ParseError path [])
      | Some Empty \<Rightarrow> Inr None
      | Some (Mapping d) \<Rightarrow> Inr (Some d))"

definition save_yaml :: "filesystem \<Rightarrow> doc \<Rightarrow> string \<Rightarrow> filesystem" where
  "save_yaml fs dct path = fs(path \<mapsto> Mapping dct)"

definition exists :: "filesystem \<Rightarrow> string \<Rightarrow> bool" where
  "exists fs path = (fs path \<noteq> None)"

section \<open>Saving\<close>

text \<open>\<open>UserConfig.save\<close>, up to the document handed to \<open>save_yaml\<close>, and the whole of it.\<close>

definition save_document :: "externals \<Rightarrow> UserConfig \<Rightarrow> exn + doc" where
  "save_document ext self =
     and_then (UserConfigSchema_load ext []) (\<lambda>default_obj.
       let dct = UserConfigSchema_dump self;
           default_dct = UserConfigSchema_dump default_obj;
           dct = remove_common_dict_items dct default_dct
       in Inr (AList.update ''version'' (YInt CURRENT_CONFIG_VERSION) dct))"

definition save :: "externals \<Rightarrow> filesystem \<Rightarrow> UserConfig \<Rightarrow> string \<Rightarrow> exn + filesystem" where
  "save ext fs self config_path =
     and_then (save_document ext self) (\<lambda>dct. Inr (save_yaml fs dct config_path))"

section \<open>Version 1: migration\<close>

definition all_policies_warning :: string where
  "all_policies_warning = ''The `all_policies` option has been deprecated and is now ignored.''"

definition ignore_default_excludes_warning :: string where
  "ignore_default_excludes_warning =
     ''The `ignore_default_exclude` option has been deprecated and is now ignored.''"

text \<open>
  Modelled from the spec: \<open>api_to_dashboard_url\<close> is imported from
  \<open>ggshield.core.utils\<close>. It converts an API endpoint URL into the corresponding
  dashboard base URL and, asked to warn, displays a deprecation warning (section 4.4,
  step 1). The conversion itself and the text of the warning are not fixed by the
  specification and come from the collaborators.
\<close>

definition api_to_dashboard_url ::
  "externals \<Rightarrow> yaml \<Rightarrow> bool \<Rightarrow> string list \<times> (exn + string)" where
  "api_to_dashboard_url ext api_url warn =
     (if warn then [api_url_deprecation_warning ext] else [], dashboard_url_of ext api_url)"

text \<open>
  The first step of \<open>load_v1\<close>: \<open>api_url\<close> is popped; where the document has no
  \<open>instance\<close> key, the dashboard URL is stored under it, as a new last key.
\<close>

definition pop_api_url :: "externals \<Rightarrow> doc \<Rightarrow> string list \<times> (exn + doc)" where
  "pop_api_url ext data =
     (case map_of data ''api_url'' of
        None \<Rightarrow> ([], Inr data)
      | Some api_url \<Rightarrow>
          (let data = AList.delete ''api_url'' data
           in if map_of data ''instance'' = None
              then (case api_to_dashboard_url ext api_url True of
                      (w, Inl e) \<Rightarrow> (w, Inl e)
                    | (w, Inr url) \<Rightarrow> (w, Inr (AList.update ''instance'' (YStr url) data)))
              else ([], Inr data)))"

text \<open>
  \<open>load_v1\<close> returns the warnings displayed, in order, and the configuration or the
  exception raised.
\<close>

definition load_v1 :: "externals \<Rightarrow> doc \<Rightarrow> string list \<times> (exn + UserConfig)" where
  "load_v1 ext data =
     (case pop_api_url ext data of
        (w, Inl e) \<Rightarrow> (w, Inl e)
      | (w, Inr data) \<Rightarrow>
          (case and_then (update_matches_ignore data) (UserV1ConfigSchema_load ext) of
             Inl e \<Rightarrow> (w, Inl e)
           | Inr v1config \<Rightarrow>
               (let w = w @ (if all_policies v1config then [all_policies_warning] else []);
                    w = w @ (if ignore_default_excludes v1config
                             then [ignore_default_excludes_warning] else [])
                in (w, and_then
                         (SecretConfig_init ext (v1_show_secrets v1config)
                            (banlisted_detectors v1config) (matches_ignore v1config)
                            (paths_ignore v1config))
                         (\<lambda>s. Inr \<lparr>iac = IaCConfig_default,
                                    instance_url = v1_instance v1config,
                                    exit_zero = v1_exit_zero v1config,
                                    verbose = v1_verbose v1config,
                                    allow_self_signed = v1_allow_self_signed v1config,
                                    max_commits_for_hook = v1_max_commits_for_hook v1config,
                                    secret = s\<rparr>)))))"

section \<open>Loading\<close>

definition deprecated_format_warning :: "string \<Rightarrow> string" where
  "deprecated_format_warning config_path =
     config_path @ '' uses a deprecated configuration file format.''
       @ '' Follow the instructions from ggshield README.md to update it.''"

text \<open>The \<open>except ValidationError\<close> clause: any other exception passes through.\<close>

fun reraise :: "string \<Rightarrow> exn \<Rightarrow> error" where
  "reraise config_path (ValidationError message) = ParseError config_path message"
| "reraise config_path e = Exception e"

text \<open>
  \<open>UserConfig._update_from_file\<close> mutates its instance. The model returns the warnings
  displayed, the error raised if any, and the instance as the call leaves it.
\<close>

definition update_from_file ::
  "externals \<Rightarrow> filesystem \<Rightarrow> UserConfig \<Rightarrow> string \<Rightarrow> string list \<times> error option \<times> UserConfig" where
  "update_from_file ext fs self config_path =
     (case load_yaml fs config_path of
        Inl e \<Rightarrow> ([], Some e, self)
      | Inr loaded \<Rightarrow>
          (let data = (case loaded of
                         None \<Rightarrow> [(''version'', YInt CURRENT_CONFIG_VERSION)]
                       | Some d \<Rightarrow> if d = [] then [(''version'', YInt CURRENT_CONFIG_VERSION)] else d);
               config_version = (case map_of data ''version'' of None \<Rightarrow> YInt 1 | Some v \<Rightarrow> v);
               data = AList.delete ''version'' data
           in if py_eq_int config_version 2
              then (case UserConfigSchema_load ext data of
                      Inl e \<Rightarrow> ([], Some (reraise config_path e), self)
                    | Inr obj \<Rightarrow> ([], None, update_from_other_instance self obj))
              else if py_eq_int config_version 1
              then (case load_v1 ext data of
                      (w, Inl e) \<Rightarrow>
                        (deprecated_format_warning config_path # w,
                         Some (reraise config_path e), self)
                    | (w, Inr obj) \<Rightarrow>
                        (deprecated_format_warning config_path # w, None,
                         update_from_other_instance self obj))
              else ([], Some (ClickException config_version), self)))"

text \<open>The two discovery loops of \<open>load\<close> stop at the first path that exists.\<close>

fun first_existing :: "filesystem \<Rightarrow> string list \<Rightarrow> string option" where
  "first_existing fs [] = None"
| "first_existing fs (p # ps) = (if exists fs p then Some p else first_existing fs ps)"

text \<open>One tier: the accumulator is updated from the file found, if there is one.\<close>

definition update_from_tier ::
  "externals \<Rightarrow> filesystem \<Rightarrow> UserConfig \<Rightarrow> string option
     \<Rightarrow> string list \<times> error option \<times> UserConfig" where
  "update_from_tier ext fs user_config found =
     (case found of
        None \<Rightarrow> ([], None, user_config)
      | Some path \<Rightarrow> update_from_file ext fs user_config path)"

text \<open>
  \<open>UserConfig.load\<close>: \<open>if config_path\<close> holds for a string that is not empty. The result
  is the warnings and either the error or the configuration with the path to save to.
\<close>

definition load ::
  "externals \<Rightarrow> filesystem \<Rightarrow> string option \<Rightarrow> string list \<times> (error + UserConfig \<times> string)" where
  "load ext fs config_path =
     (let user_config = UserConfig_default
      in if config_path \<noteq> None \<and> config_path \<noteq> Some []
         then (case update_from_file ext fs user_config (the config_path) of
                 (w, Some e, _) \<Rightarrow> (w, Inl e)
               | (w, None, user_config) \<Rightarrow> (w, Inr (user_config, the config_path)))
         else
           (let global_found =
                  first_existing fs (map (get_global_path ext) (GLOBAL_CONFIG_FILENAMES ext))
            in case update_from_tier ext fs user_config global_found of
                 (w, Some e, _) \<Rightarrow> (w, Inl e)
               | (w, None, user_config) \<Rightarrow>
                   (let local_found = first_existing fs (LOCAL_CONFIG_PATHS ext)
                    in case update_from_tier ext fs user_config local_found of
                         (w', Some e, _) \<Rightarrow> (w @ w', Inl e)
                       | (w', None, user_config) \<Rightarrow>
                           (let config_path =
                                  (case local_found of Some p \<Rightarrow> Some p | None \<Rightarrow> config_path);
                                config_path =
                                  (case config_path of
                                     None \<Rightarrow> DEFAULT_LOCAL_CONFIG_PATH ext
                                   | Some p \<Rightarrow> p)
                            in (w @ w', Inr (user_config, config_path))))))"

section \<open>A setting for examples\<close>

text \<open>
  Collaborators for the concrete examples below: entries pass post-initialisation
  unchanged, the conversion of the API URL answers the dashboard of the public
  instance, and the schemas reject unknown keys.
\<close>

definition example_externals :: externals where
  "example_externals =
     \<lparr>post_init_ignored_match = Inr,
      dashboard_url_of = (\<lambda>url. Inr ''https://dashboard.gitguardian.com''),
      api_url_deprecation_warning = ''api_url is deprecated'',
      get_global_path = (\<lambda>filename. ''/home/user/.config/ggshield/'' @ filename),
      GLOBAL_CONFIG_FILENAMES = [''.gitguardian'', ''.gitguardian.yml'', ''.gitguardian.yaml''],
      LOCAL_CONFIG_PATHS = [''./.gitguardian'', ''./.gitguardian.yml'', ''./.gitguardian.yaml''],
      DEFAULT_LOCAL_CONFIG_PATH = ''./.gitguardian.yaml'',
      unknown_raise = True\<rparr>"

definition example_version_true_fs :: filesystem where
  "example_version_true_fs = map_of [(''./.gitguardian.yaml'', Mapping [(''version'', YBool True)])]"

definition example_global_fs :: filesystem where
  "example_global_fs =
     map_of [(''/home/user/.config/ggshield/.gitguardian.yml'',
              Mapping [(''version'', YInt 2), (''verbose'', YBool True)])]"

definition example_v1_fs :: filesystem where
  "example_v1_fs = map_of [(''./.gitguardian.yaml'', Mapping [(''verbose'', YBool True)])]"

definition example_two_tier_fs :: filesystem where
  "example_two_tier_fs =
     map_of [(''/home/user/.config/ggshield/.gitguardian.yml'',
              Mapping [(''version'', YInt 2), (''verbose'', YBool True),
                       (''secret'', YDict [(''ignored_paths'', YList [YStr ''a''])])]),
             (''./.gitguardian.yaml'',
              Mapping [(''version'', YInt 2),
                       (''secret'', YDict [(''ignored_paths'', YList [YStr ''b''])])])]"

section \<open>Properties of \<open>add_ignored_match\<close>\<close>

lemma add_ignored_match_loop_absent:
  "match s \<notin> match ` set ms \<Longrightarrow> add_ignored_match_loop ms s = ms @ [s]"
  by (induction ms) auto

lemma add_ignored_match_loop_rename:
  "distinct (map match ms) \<Longrightarrow> i < length ms \<Longrightarrow> match (ms ! i) = match s \<Longrightarrow>
   name (ms ! i) = [] \<Longrightarrow>
   add_ignored_match_loop ms s = ms[i := (ms ! i)\<lparr>name := name s\<rparr>]"
proof (induction ms arbitrary: i)
  case Nil
  then show ?case by simp
next
  case (Cons m ms)
  show ?case
  proof (cases i)
    case 0
    with Cons.prems show ?thesis by simp
  next
    case (Suc j)
    with Cons.prems have "ms ! j \<in> set ms" and "match m \<notin> match ` set ms"
      by simp_all
    with Cons.prems Suc have "match m \<noteq> match s"
      by (metis image_eqI nth_Cons_Suc)
    with Cons Suc show ?thesis by simp
  qed
qed

lemma add_ignored_match_loop_named:
  "distinct (map match ms) \<Longrightarrow> e \<in> set ms \<Longrightarrow> match e = match s \<Longrightarrow> name e \<noteq> [] \<Longrightarrow>
   add_ignored_match_loop ms s = ms"
  by (induction ms) (auto simp: image_iff)

lemma add_ignored_match_loop_hashes:
  "map match (add_ignored_match_loop ms s) =
     (if match s \<in> match ` set ms then map match ms else map match ms @ [match s])"
  by (induction ms) auto

lemma add_ignored_match_loop_last:
  "match s \<notin> match ` set ms \<Longrightarrow> match e = match s \<Longrightarrow>
   add_ignored_match_loop (ms @ [e]) s =
     ms @ [if name e = [] then e\<lparr>name := name s\<rparr> else e]"
  by (induction ms) auto

text \<open>
  C3. In a \<open>SecretConfig\<close> with at most one entry per match hash, \<open>add_ignored_match\<close>
  appends an entry whose hash is new; gives the name of the new entry to the existing
  entry with the same hash when that one has an empty name, appending nothing; and
  changes nothing when the existing entry has a name. The result again has at most one
  entry per hash. Adding, for a hash \<open>h\<close> that is not there, an entry with the name
  \<open>""\<close> and then one with the name \<open>"x"\<close>, or the two in the other order, adds the
  single entry \<open>h\<close> with the name \<open>"x"\<close>.
\<close>

theorem add_ignored_match_one_entry_per_hash:
  assumes "distinct (map match (ignored_matches c))"
  shows "(match m \<notin> match ` set (ignored_matches c) \<longrightarrow>
            add_ignored_match c m = c\<lparr>ignored_matches := ignored_matches c @ [m]\<rparr>)
       \<and> (\<forall>i < length (ignored_matches c).
            match (ignored_matches c ! i) = match m \<and> name (ignored_matches c ! i) = [] \<longrightarrow>
            add_ignored_match c m =
              c\<lparr>ignored_matches :=
                   (ignored_matches c)[i := (ignored_matches c ! i)\<lparr>name := name m\<rparr>]\<rparr>)
       \<and> (\<forall>e \<in> set (ignored_matches c).
            match e = match m \<and> name e \<noteq> [] \<longrightarrow> add_ignored_match c m = c)
       \<and> distinct (map match (ignored_matches (add_ignored_match c m)))
       \<and> (h \<notin> match ` set (ignored_matches c) \<longrightarrow>
            add_ignored_match (add_ignored_match c \<lparr>name = [], match = h\<rparr>) \<lparr>name = ''x'', match = h\<rparr>
              = c\<lparr>ignored_matches := ignored_matches c @ [\<lparr>name = ''x'', match = h\<rparr>]\<rparr>
          \<and> add_ignored_match (add_ignored_match c \<lparr>name = ''x'', match = h\<rparr>) \<lparr>name = [], match = h\<rparr>
              = c\<lparr>ignored_matches := ignored_matches c @ [\<lparr>name = ''x'', match = h\<rparr>]\<rparr>)"
proof (intro conjI allI ballI impI)
  assume "match m \<notin> match ` set (ignored_matches c)"
  then show "add_ignored_match c m = c\<lparr>ignored_matches := ignored_matches c @ [m]\<rparr>"
    by (simp add: add_ignored_match_def add_ignored_match_loop_absent)
next
  fix i
  assume "i < length (ignored_matches c)"
    and "match (ignored_matches c ! i) = match m \<and> name (ignored_matches c ! i) = []"
  with assms show "add_ignored_match c m =
      c\<lparr>ignored_matches := (ignored_matches c)[i := (ignored_matches c ! i)\<lparr>name := name m\<rparr>]\<rparr>"
    by (simp add: add_ignored_match_def add_ignored_match_loop_rename)
next
  fix e
  assume "e \<in> set (ignored_matches c)" and "match e = match m \<and> name e \<noteq> []"
  with assms show "add_ignored_match c m = c"
    by (simp add: add_ignored_match_def add_ignored_match_loop_named)
next
  from assms show "distinct (map match (ignored_matches (add_ignored_match c m)))"
    by (simp add: add_ignored_match_def add_ignored_match_loop_hashes)
next
  assume h: "h \<notin> match ` set (ignored_matches c)"
  let ?ms = "ignored_matches c"
  have 1: "add_ignored_match_loop ?ms \<lparr>name = [], match = h\<rparr> = ?ms @ [\<lparr>name = [], match = h\<rparr>]"
    using h by (simp add: add_ignored_match_loop_absent)
  have 2: "add_ignored_match_loop (?ms @ [\<lparr>name = [], match = h\<rparr>]) \<lparr>name = ''x'', match = h\<rparr>
             = ?ms @ [\<lparr>name = ''x'', match = h\<rparr>]"
    using h by (simp add: add_ignored_match_loop_last)
  show "add_ignored_match (add_ignored_match c \<lparr>name = [], match = h\<rparr>) \<lparr>name = ''x'', match = h\<rparr>
          = c\<lparr>ignored_matches := ignored_matches c @ [\<lparr>name = ''x'', match = h\<rparr>]\<rparr>"
    by (simp add: add_ignored_match_def 1 2)
next
  assume h: "h \<notin> match ` set (ignored_matches c)"
  let ?ms = "ignored_matches c"
  have 1: "add_ignored_match_loop ?ms \<lparr>name = ''x'', match = h\<rparr> = ?ms @ [\<lparr>name = ''x'', match = h\<rparr>]"
    using h by (simp add: add_ignored_match_loop_absent)
  have 2: "add_ignored_match_loop (?ms @ [\<lparr>name = ''x'', match = h\<rparr>]) \<lparr>name = [], match = h\<rparr>
             = ?ms @ [\<lparr>name = ''x'', match = h\<rparr>]"
    using h by (simp add: add_ignored_match_loop_last)
  show "add_ignored_match (add_ignored_match c \<lparr>name = ''x'', match = h\<rparr>) \<lparr>name = [], match = h\<rparr>
          = c\<lparr>ignored_matches := ignored_matches c @ [\<lparr>name = ''x'', match = h\<rparr>]\<rparr>"
    by (simp add: add_ignored_match_def 1 2)
qed

theorem add_ignored_match_one_entry_per_hash_witness:
  "distinct (map match (ignored_matches
      (SecretConfig_default\<lparr>ignored_matches :=
         [\<lparr>name = [], match = ''h1''\<rparr>, \<lparr>name = ''n'', match = ''h2''\<rparr>]\<rparr>)))
   \<and> add_ignored_match
        (SecretConfig_default\<lparr>ignored_matches :=
           [\<lparr>name = [], match = ''h1''\<rparr>, \<lparr>name = ''n'', match = ''h2''\<rparr>]\<rparr>)
        \<lparr>name = ''x'', match = ''h1''\<rparr>
      = SecretConfig_default\<lparr>ignored_matches :=
          [\<lparr>name = ''x'', match = ''h1''\<rparr>, \<lparr>name = ''n'', match = ''h2''\<rparr>]\<rparr>"
proof -
  let ?c = "SecretConfig_default\<lparr>ignored_matches :=
              [\<lparr>name = [], match = ''h1''\<rparr>, \<lparr>name = ''n'', match = ''h2''\<rparr>]\<rparr>"
  have d: "distinct (map match (ignored_matches ?c))"
    by simp
  from add_ignored_match_one_entry_per_hash [OF d, of "\<lparr>name = ''x'', match = ''h1''\<rparr>" "''h3''"]
  have "\<forall>i < length (ignored_matches ?c).
          match (ignored_matches ?c ! i) = match \<lparr>name = ''x'', match = ''h1''\<rparr>
            \<and> name (ignored_matches ?c ! i) = [] \<longrightarrow>
          add_ignored_match ?c \<lparr>name = ''x'', match = ''h1''\<rparr> =
            ?c\<lparr>ignored_matches :=
                 (ignored_matches ?c)[i := (ignored_matches ?c ! i)\<lparr>name := ''x''\<rparr>]\<rparr>"
    by simp
  from this [rule_format, of 0] d show ?thesis
    by simp
qed

section \<open>Properties of \<open>update_matches_ignore\<close>\<close>

lemma update_matches_ignore_loop_from:
  "update_matches_ignore_loop idx xs = take idx xs @ map normalized_entry_spec (drop idx xs)"
proof (induction idx xs rule: update_matches_ignore_loop.induct)
  case (1 idx xs)
  show ?case
  proof (cases "idx < length xs")
    case False
    then show ?thesis
      by (simp add: update_matches_ignore_loop.simps)
  next
    case True
    let ?ys = "if isinstance_str (xs ! idx) then xs[idx := hash_only_match (xs ! idx)] else xs"
    have entry: "?ys ! idx = normalized_entry_spec (xs ! idx)"
      using True by (cases "xs ! idx") (simp_all add: hash_only_match_def)
    have len: "length ?ys = length xs"
      by simp
    have "update_matches_ignore_loop idx xs = update_matches_ignore_loop (Suc idx) ?ys"
      using True by (subst update_matches_ignore_loop.simps) simp
    also have "\<dots> = take (Suc idx) ?ys @ map normalized_entry_spec (drop (Suc idx) ?ys)"
      using 1 True by simp
    also have "take (Suc idx) ?ys = take idx ?ys @ [?ys ! idx]"
      using True len by (simp only: take_Suc_conv_app_nth)
    also have "take idx ?ys = take idx xs"
      by simp
    also have "drop (Suc idx) ?ys = drop (Suc idx) xs"
      by simp
    finally show ?thesis
      using True entry by (simp add: Cons_nth_drop_Suc [symmetric] del: if_split)
  qed
qed

lemma update_matches_ignore_loop_map:
  "update_matches_ignore_loop 0 xs = map normalized_entry_spec xs"
  by (simp add: update_matches_ignore_loop_from)

text \<open>
  C6. Where \<open>matches_ignore\<close> is a list with entries, \<open>update_matches_ignore\<close> replaces
  it, under the same key, by a list of the same length in which every bare string
  \<open>s\<close> has become the object with an empty name and the match \<open>s\<close>, at the same
  position, and every entry that is not a string is unchanged. Where the key is
  missing or the list is empty, the document is left as it is.
\<close>

theorem update_matches_ignore_normalizes:
  "(map_of data ''matches_ignore'' = Some (YList xs) \<and> xs \<noteq> [] \<longrightarrow>
      (\<exists>ys. update_matches_ignore data = Inr (AList.update ''matches_ignore'' (YList ys) data)
          \<and> length ys = length xs
          \<and> (\<forall>i < length xs.
                (\<forall>s. xs ! i = YStr s \<longrightarrow>
                       ys ! i = YDict [(''name'', YStr ''''), (''match'', YStr s)])
              \<and> (\<not> isinstance_str (xs ! i) \<longrightarrow> ys ! i = xs ! i))
          \<and> ys = map normalized_entry_spec xs))
   \<and> (map_of data ''matches_ignore'' = None \<or> map_of data ''matches_ignore'' = Some (YList [])
        \<longrightarrow> update_matches_ignore data = Inr data)"
proof (intro conjI impI)
  assume a: "map_of data ''matches_ignore'' = Some (YList xs) \<and> xs \<noteq> []"
  have unchanged: "\<not> isinstance_str v \<Longrightarrow> normalized_entry_spec v = v" for v
    by (cases v) simp_all
  show "\<exists>ys. update_matches_ignore data = Inr (AList.update ''matches_ignore'' (YList ys) data)
          \<and> length ys = length xs
          \<and> (\<forall>i < length xs.
                (\<forall>s. xs ! i = YStr s \<longrightarrow>
                       ys ! i = YDict [(''name'', YStr ''''), (''match'', YStr s)])
              \<and> (\<not> isinstance_str (xs ! i) \<longrightarrow> ys ! i = xs ! i))
          \<and> ys = map normalized_entry_spec xs"
    using a by (intro exI [of _ "map normalized_entry_spec xs"])
      (simp add: update_matches_ignore_def update_matches_ignore_loop_map unchanged)
next
  assume "map_of data ''matches_ignore'' = None \<or> map_of data ''matches_ignore'' = Some (YList [])"
  then show "update_matches_ignore data = Inr data"
    by (auto simp: update_matches_ignore_def)
qed

theorem update_matches_ignore_normalizes_witness:
  "map_of [(''exit_zero'', YBool True),
           (''matches_ignore'',
              YList [YStr ''deadbeef'', YDict [(''name'', YStr ''n''), (''match'', YStr ''abc'')]])]
     ''matches_ignore''
     = Some (YList [YStr ''deadbeef'', YDict [(''name'', YStr ''n''), (''match'', YStr ''abc'')]])
   \<and> update_matches_ignore
       [(''exit_zero'', YBool True),
        (''matches_ignore'',
           YList [YStr ''deadbeef'', YDict [(''name'', YStr ''n''), (''match'', YStr ''abc'')]])]
     = Inr [(''exit_zero'', YBool True),
            (''matches_ignore'',
               YList [YDict [(''name'', YStr ''''), (''match'', YStr ''deadbeef'')],
                      YDict [(''name'', YStr ''n''), (''match'', YStr ''abc'')]])]"
  using update_matches_ignore_normalizes
    [of "[(''exit_zero'', YBool True),
          (''matches_ignore'',
             YList [YStr ''deadbeef'', YDict [(''name'', YStr ''n''), (''match'', YStr ''abc'')]])]"
        "[YStr ''deadbeef'', YDict [(''name'', YStr ''n''), (''match'', YStr ''abc'')]]"]
  by auto

section \<open>Basic facts\<close>

lemma and_then_Inr [simp]: "and_then (Inr x) f = f x"
  by (simp add: and_then_def)

lemma and_then_Inl [simp]: "and_then (Inl e) f = Inl e"
  by (simp add: and_then_def)

lemma and_then_eq_Inr:
  "and_then r f = Inr y \<longleftrightarrow> (\<exists>x. r = Inr x \<and> f x = Inr y)"
  by (cases r) simp_all

lemma check_unknown_Nil [simp]: "check_unknown ext path declared [] = Inr ()"
  by (simp add: check_unknown_def)

lemma load_field_Nil [simp]: "load_field [] key f dflt = Inr dflt"
  by (simp add: load_field_def)

lemma UserConfigSchema_load_empty: "UserConfigSchema_load ext [] = Inr UserConfig_default"
  by (simp add: UserConfigSchema_load_def UserConfig_default_def)

lemma update_from_other_instance_src: "update_from_other_instance dst src = src"
  by (simp add: update_from_other_instance_def)

section \<open>Properties of saving\<close>


lemma map_of_update_same: "map_of (AList.update k v al) k = Some v"
  by (simp add: AList.update_conv')


section \<open>Properties of loading\<close>

lemma load_yaml_Mapping: "fs path = Some (Mapping d) \<Longrightarrow> load_yaml fs path = Inr (Some d)"
  by (simp add: load_yaml_def)

lemma delete_absent: "map_of al k = None \<Longrightarrow> AList.delete k al = al"
  by (induction al) (auto split: if_splits)

lemma update_from_file_failure_keeps_self:
  "fst (snd (update_from_file ext fs self config_path)) = Some e \<Longrightarrow>
   snd (snd (update_from_file ext fs self config_path)) = self"
  by (auto simp: update_from_file_def Let_def split: sum.splits prod.splits if_splits)

lemma update_from_file_success_any_self:
  "update_from_file ext fs self config_path = (w, None, c) \<Longrightarrow>
   update_from_file ext fs self' config_path = (w, None, c)"
  by (auto simp: update_from_file_def Let_def update_from_other_instance_src
      split: sum.splits prod.splits if_splits)

lemma update_from_file_same_file:
  "fs config_path = fs' config_path \<Longrightarrow>
   update_from_file ext fs self config_path = update_from_file ext fs' self config_path"
  by (simp add: update_from_file_def load_yaml_def)

text \<open>
  C7, as the source has it. A document whose \<open>version\<close> is present and compares equal to
  neither 1 nor 2 under Python's \<open>==\<close> makes \<open>_update_from_file\<close> raise the
  \<open>ClickException\<close> with no warning displayed, and whenever \<open>_update_from_file\<close> raises,
  for this or any other reason, the instance is as it was before the call.
\<close>

theorem unsupported_version_is_fatal:
  "(fs config_path = Some (Mapping data) \<and> map_of data ''version'' = Some v
      \<and> \<not> py_eq_int v 1 \<and> \<not> py_eq_int v 2
     \<longrightarrow> update_from_file ext fs self config_path = ([], Some (ClickException v), self))
   \<and> (fst (snd (update_from_file ext fs self config_path)) \<noteq> None
     \<longrightarrow> snd (snd (update_from_file ext fs self config_path)) = self)"
proof (intro conjI impI)
  assume a: "fs config_path = Some (Mapping data) \<and> map_of data ''version'' = Some v
      \<and> \<not> py_eq_int v 1 \<and> \<not> py_eq_int v 2"
  then have "data \<noteq> []"
    by auto
  with a show "update_from_file ext fs self config_path = ([], Some (ClickException v), self)"
    by (simp add: update_from_file_def load_yaml_Mapping Let_def)
next
  assume "fst (snd (update_from_file ext fs self config_path)) \<noteq> None"
  then show "snd (snd (update_from_file ext fs self config_path)) = self"
    using update_from_file_failure_keeps_self by blast
qed

theorem unsupported_version_is_fatal_witness:
  "map_of [(''./.gitguardian.yaml'', Mapping [(''version'', YInt 99), (''verbose'', YBool True)])]
     ''./.gitguardian.yaml''
     = Some (Mapping [(''version'', YInt 99), (''verbose'', YBool True)])
   \<and> map_of [(''version'', YInt 99), (''verbose'', YBool True)] ''version'' = Some (YInt 99)
   \<and> \<not> py_eq_int (YInt 99) 1 \<and> \<not> py_eq_int (YInt 99) 2
   \<and> update_from_file example_externals
        (map_of [(''./.gitguardian.yaml'',
                  Mapping [(''version'', YInt 99), (''verbose'', YBool True)])])
        UserConfig_default ''./.gitguardian.yaml''
       = ([], Some (ClickException (YInt 99)), UserConfig_default)"
  using unsupported_version_is_fatal
    [of "map_of [(''./.gitguardian.yaml'',
                  Mapping [(''version'', YInt 99), (''verbose'', YBool True)])]"
        "''./.gitguardian.yaml''" "[(''version'', YInt 99), (''verbose'', YBool True)]"
        "YInt 99" example_externals UserConfig_default]
  by simp

text \<open>
  The claim C7 as written fails for the document \<open>version: true\<close>: the value is present
  and is neither the number 1 nor the number 2, yet \<open>True == 1\<close> holds in Python, the
  document is migrated as version 1 and no error is raised.
\<close>

theorem version_true_loads_counterexample:
  "example_version_true_fs ''./.gitguardian.yaml'' = Some (Mapping [(''version'', YBool True)])
   \<and> map_of [(''version'', YBool True)] ''version'' = Some (YBool True)
   \<and> YBool True \<noteq> YInt 1 \<and> YBool True \<noteq> YInt 2
   \<and> update_from_file example_externals example_version_true_fs UserConfig_default
        ''./.gitguardian.yaml''
       = ([deprecated_format_warning ''./.gitguardian.yaml''], None, UserConfig_default)"
  by (simp add: example_version_true_fs_def update_from_file_def load_yaml_def Let_def
      CURRENT_CONFIG_VERSION_def load_v1_def pop_api_url_def update_matches_ignore_def
      UserV1ConfigSchema_load_def SecretConfig_init_def example_externals_def
      update_from_other_instance_src UserConfig_default_def SecretConfig_default_def)

text \<open>
  C8, as the source has it. With an explicit path that is not the empty string, \<open>load\<close>
  is \<open>_update_from_file\<close> on a default instance for that path and nothing else: the
  result does not depend on any other file, and the path returned is the explicit one.
\<close>

theorem load_explicit_path_only:
  "(config_path \<noteq> [] \<longrightarrow>
      load ext fs (Some config_path) =
        (case update_from_file ext fs UserConfig_default config_path of
           (w, Some e, c) \<Rightarrow> (w, Inl e)
         | (w, None, c) \<Rightarrow> (w, Inr (c, config_path))))
   \<and> (config_path \<noteq> [] \<and> fs config_path = fs' config_path \<longrightarrow>
        load ext fs (Some config_path) = load ext fs' (Some config_path))
   \<and> (config_path \<noteq> [] \<and> snd (load ext fs (Some config_path)) = Inr (c, p) \<longrightarrow> p = config_path)"
proof (intro conjI impI)
  assume "config_path \<noteq> []"
  then show "load ext fs (Some config_path) =
        (case update_from_file ext fs UserConfig_default config_path of
           (w, Some e, c) \<Rightarrow> (w, Inl e)
         | (w, None, c) \<Rightarrow> (w, Inr (c, config_path)))"
    by (simp add: load_def split: prod.splits option.splits)
next
  assume "config_path \<noteq> [] \<and> fs config_path = fs' config_path"
  then show "load ext fs (Some config_path) = load ext fs' (Some config_path)"
    by (simp add: load_def update_from_file_same_file [of fs config_path fs'])
next
  assume "config_path \<noteq> [] \<and> snd (load ext fs (Some config_path)) = Inr (c, p)"
  then show "p = config_path"
    by (auto simp: load_def split: prod.splits option.splits)
qed

theorem load_explicit_path_only_witness:
  "''custom.yaml'' \<noteq> []
   \<and> example_global_fs ''custom.yaml'' = Map.empty ''custom.yaml''
   \<and> load example_externals example_global_fs (Some ''custom.yaml'')
       = load example_externals Map.empty (Some ''custom.yaml'')
   \<and> load example_externals example_global_fs (Some ''custom.yaml'')
       = ([], Inr (UserConfig_default, ''custom.yaml''))"
proof -
  have same: "example_global_fs ''custom.yaml'' = Map.empty ''custom.yaml''"
    by (simp add: example_global_fs_def)
  have nonempty: "''custom.yaml'' \<noteq> []"
    by simp
  have computed: "load example_externals Map.empty (Some ''custom.yaml'')
          = ([], Inr (UserConfig_default, ''custom.yaml''))"
    by (simp add: load_def update_from_file_def load_yaml_def CURRENT_CONFIG_VERSION_def
        UserConfigSchema_load_empty update_from_other_instance_src)
  from load_explicit_path_only
    [of "''custom.yaml''" example_externals example_global_fs Map.empty] nonempty same
  have "load example_externals example_global_fs (Some ''custom.yaml'')
          = load example_externals Map.empty (Some ''custom.yaml'')"
    by blast
  with same nonempty computed show ?thesis
    by simp
qed

text \<open>
  The claim C8 as written fails for the explicit path \<open>""\<close>: \<open>if config_path\<close> is false for
  it, the discovery runs, and the global file sets \<open>verbose\<close> in the result although no
  file is at the explicit path.
\<close>

theorem load_empty_path_discovers_counterexample:
  "example_global_fs '''' = None
   \<and> load example_externals example_global_fs (Some '''')
       = ([], Inr (UserConfig_default\<lparr>verbose := True\<rparr>, ''''))"
  by (simp add: example_global_fs_def load_def example_externals_def exists_def
      update_from_tier_def update_from_file_def load_yaml_def Let_def CURRENT_CONFIG_VERSION_def
      UserConfigSchema_load_def check_unknown_def load_field_def load_bool_def
      update_from_other_instance_src UserConfig_default_def)

text \<open>
  C10. A document that is not empty and has no \<open>version\<close> key is migrated by \<open>load_v1\<close>:
  the first warning is the one about the deprecated format, the document goes to the
  migrator as it is, and the error, if any, is the migrator's, never the one for an
  unsupported version. An empty file, or an empty mapping, is loaded as the current
  version and gives the defaults, with no warning.
\<close>

theorem missing_version_is_version_1:
  "(fs config_path = Some (Mapping data) \<and> data \<noteq> [] \<and> map_of data ''version'' = None \<longrightarrow>
      update_from_file ext fs self config_path =
        (case load_v1 ext data of
           (w, Inl e) \<Rightarrow>
             (deprecated_format_warning config_path # w, Some (reraise config_path e), self)
         | (w, Inr obj) \<Rightarrow> (deprecated_format_warning config_path # w, None, obj))
      \<and> hd (fst (update_from_file ext fs self config_path)) = deprecated_format_warning config_path
      \<and> fst (snd (update_from_file ext fs self config_path)) \<noteq> Some (ClickException v))
   \<and> (fs config_path = Some Empty \<or> fs config_path = Some (Mapping []) \<longrightarrow>
        update_from_file ext fs self config_path = ([], None, UserConfig_default)
        \<and> UserConfigSchema_load ext [] = Inr UserConfig_default)"
proof (intro conjI impI)
  assume a: "fs config_path = Some (Mapping data) \<and> data \<noteq> [] \<and> map_of data ''version'' = None"
  then show eq: "update_from_file ext fs self config_path =
        (case load_v1 ext data of
           (w, Inl e) \<Rightarrow>
             (deprecated_format_warning config_path # w, Some (reraise config_path e), self)
         | (w, Inr obj) \<Rightarrow> (deprecated_format_warning config_path # w, None, obj))"
    by (simp add: update_from_file_def load_yaml_Mapping Let_def delete_absent
        update_from_other_instance_src)
  show "hd (fst (update_from_file ext fs self config_path)) = deprecated_format_warning config_path"
    unfolding eq by (simp split: prod.splits sum.splits)
  have "reraise config_path e \<noteq> ClickException v" for e
    by (cases e) simp_all
  then show "fst (snd (update_from_file ext fs self config_path)) \<noteq> Some (ClickException v)"
    unfolding eq by (simp split: prod.splits sum.splits)
next
  assume "fs config_path = Some Empty \<or> fs config_path = Some (Mapping [])"
  then show "update_from_file ext fs self config_path = ([], None, UserConfig_default)"
    by (auto simp: update_from_file_def load_yaml_def Let_def CURRENT_CONFIG_VERSION_def
        UserConfigSchema_load_empty update_from_other_instance_src)
next
  show "UserConfigSchema_load ext [] = Inr UserConfig_default"
    by (rule UserConfigSchema_load_empty)
qed

theorem missing_version_is_version_1_witness:
  "example_v1_fs ''./.gitguardian.yaml'' = Some (Mapping [(''verbose'', YBool True)])
   \<and> [(''verbose'', YBool True)] \<noteq> []
   \<and> map_of [(''verbose'', YBool True)] ''version'' = None
   \<and> update_from_file example_externals example_v1_fs UserConfig_default ''./.gitguardian.yaml''
       = ([deprecated_format_warning ''./.gitguardian.yaml''], None,
          UserConfig_default\<lparr>verbose := True\<rparr>)"
proof -
  have at_path: "example_v1_fs ''./.gitguardian.yaml'' = Some (Mapping [(''verbose'', YBool True)])"
    by (simp add: example_v1_fs_def)
  have migrated: "load_v1 example_externals [(''verbose'', YBool True)]
                    = ([], Inr (UserConfig_default\<lparr>verbose := True\<rparr>))"
    by (simp add: load_v1_def pop_api_url_def update_matches_ignore_def
        UserV1ConfigSchema_load_def check_unknown_def load_field_def load_bool_def
        SecretConfig_init_def example_externals_def UserConfig_default_def
        SecretConfig_default_def)
  from missing_version_is_version_1
    [of example_v1_fs "''./.gitguardian.yaml''" "[(''verbose'', YBool True)]"
        example_externals UserConfig_default] at_path migrated
  show ?thesis
    by simp
qed

section \<open>Properties of merging\<close>

text \<open>
  C2. Merging a loaded instance onto the accumulator leaves the accumulator equal to
  the loaded instance, in every field of \<open>UserConfig\<close>, \<open>SecretConfig\<close> and \<open>IaCConfig\<close>;
  after tier A and then tier B it equals B, and \<open>ignoredPaths\<close> is B's set, not a union.
  The same through the files: the instance that \<open>_update_from_file\<close> leaves for tier B
  does not depend on what tier A made of the accumulator, and \<open>load\<close> with a global and
  a local file returns what the local file alone gives.
\<close>

theorem later_tier_replaces_earlier:
  "update_from_other_instance (update_from_other_instance acc a) b = b
   \<and> ignored_paths (secret (update_from_other_instance (update_from_other_instance acc a) b))
       = ignored_paths (secret b)
   \<and> (update_from_file ext fs acc path_a = (wa, None, acc1)
        \<and> update_from_file ext fs acc1 path_b = (wb, None, acc2)
      \<longrightarrow> update_from_file ext fs acc' path_b = (wb, None, acc2))
   \<and> (first_existing fs (map (get_global_path ext) (GLOBAL_CONFIG_FILENAMES ext)) = Some g
        \<and> first_existing fs (LOCAL_CONFIG_PATHS ext) = Some l
        \<and> update_from_file ext fs UserConfig_default g = (wg, None, cg)
        \<and> update_from_file ext fs UserConfig_default l = (wl, None, cl)
      \<longrightarrow> load ext fs None = (wg @ wl, Inr (cl, l)))"
proof (intro conjI impI)
  show "update_from_other_instance (update_from_other_instance acc a) b = b"
    by (simp add: update_from_other_instance_src)
  show "ignored_paths (secret (update_from_other_instance (update_from_other_instance acc a) b))
       = ignored_paths (secret b)"
    by (simp add: update_from_other_instance_src)
next
  assume "update_from_file ext fs acc path_a = (wa, None, acc1)
        \<and> update_from_file ext fs acc1 path_b = (wb, None, acc2)"
  then show "update_from_file ext fs acc' path_b = (wb, None, acc2)"
    by (blast intro: update_from_file_success_any_self)
next
  assume a: "first_existing fs (map (get_global_path ext) (GLOBAL_CONFIG_FILENAMES ext)) = Some g
        \<and> first_existing fs (LOCAL_CONFIG_PATHS ext) = Some l
        \<and> update_from_file ext fs UserConfig_default g = (wg, None, cg)
        \<and> update_from_file ext fs UserConfig_default l = (wl, None, cl)"
  then have "update_from_file ext fs cg l = (wl, None, cl)"
    by (blast intro: update_from_file_success_any_self)
  with a show "load ext fs None = (wg @ wl, Inr (cl, l))"
    by (simp add: load_def update_from_tier_def)
qed

lemma example_ignored_paths_load:
  "UserConfigSchema_load example_externals
     [(''secret'', YDict [(''ignored_paths'', YList [YStr x])])]
     = Inr (UserConfig_default\<lparr>secret := SecretConfig_default\<lparr>ignored_paths := {x}\<rparr>\<rparr>)"
  by (simp add: UserConfigSchema_load_def check_unknown_def load_field_def load_nested_def
      SecretConfigSchema_load_def load_str_set_def load_list_def load_str_def
      SecretConfig_init_def example_externals_def UserConfig_default_def
      SecretConfig_default_def)

theorem later_tier_replaces_earlier_witness:
  "update_from_file example_externals example_two_tier_fs UserConfig_default
       ''/home/user/.config/ggshield/.gitguardian.yml''
     = ([], None, UserConfig_default\<lparr>verbose := True,
                     secret := SecretConfig_default\<lparr>ignored_paths := {''a''}\<rparr>\<rparr>)
   \<and> update_from_file example_externals example_two_tier_fs
       (UserConfig_default\<lparr>verbose := True,
                     secret := SecretConfig_default\<lparr>ignored_paths := {''a''}\<rparr>\<rparr>)
       ''./.gitguardian.yaml''
     = ([], None, UserConfig_default\<lparr>secret := SecretConfig_default\<lparr>ignored_paths := {''b''}\<rparr>\<rparr>)
   \<and> update_from_file example_externals example_two_tier_fs UserConfig_default
       ''./.gitguardian.yaml''
     = ([], None, UserConfig_default\<lparr>secret := SecretConfig_default\<lparr>ignored_paths := {''b''}\<rparr>\<rparr>)
   \<and> first_existing example_two_tier_fs
       (map (get_global_path example_externals) (GLOBAL_CONFIG_FILENAMES example_externals))
     = Some ''/home/user/.config/ggshield/.gitguardian.yml''
   \<and> first_existing example_two_tier_fs (LOCAL_CONFIG_PATHS example_externals)
     = Some ''./.gitguardian.yaml''
   \<and> load example_externals example_two_tier_fs None
     = ([], Inr (UserConfig_default\<lparr>secret := SecretConfig_default\<lparr>ignored_paths := {''b''}\<rparr>\<rparr>,
                 ''./.gitguardian.yaml''))"
proof -
  let ?a = "UserConfig_default\<lparr>verbose := True,
              secret := SecretConfig_default\<lparr>ignored_paths := {''a''}\<rparr>\<rparr>"
  let ?b = "UserConfig_default\<lparr>secret := SecretConfig_default\<lparr>ignored_paths := {''b''}\<rparr>\<rparr>"
  have global_doc: "UserConfigSchema_load example_externals
      [(''verbose'', YBool True), (''secret'', YDict [(''ignored_paths'', YList [YStr ''a''])])]
      = Inr ?a"
    by (simp add: UserConfigSchema_load_def check_unknown_def load_field_def load_nested_def
        SecretConfigSchema_load_def load_str_set_def load_list_def load_str_def load_bool_def
        SecretConfig_init_def example_externals_def UserConfig_default_def
        SecretConfig_default_def)
  have tier_a: "update_from_file example_externals example_two_tier_fs UserConfig_default
       ''/home/user/.config/ggshield/.gitguardian.yml'' = ([], None, ?a)"
    by (simp add: update_from_file_def load_yaml_def example_two_tier_fs_def Let_def
        global_doc update_from_other_instance_src)
  have tier_b: "update_from_file example_externals example_two_tier_fs ?a
       ''./.gitguardian.yaml'' = ([], None, ?b)"
    by (simp add: update_from_file_def load_yaml_def example_two_tier_fs_def Let_def
        example_ignored_paths_load update_from_other_instance_src)
  from later_tier_replaces_earlier
    [where ext = example_externals and fs = example_two_tier_fs and acc = UserConfig_default
       and path_a = "''/home/user/.config/ggshield/.gitguardian.yml''" and wa = "[]"
       and ?acc1.0 = ?a and path_b = "''./.gitguardian.yaml''" and wb = "[]" and ?acc2.0 = ?b
       and acc' = UserConfig_default]
    tier_a tier_b
  have alone: "update_from_file example_externals example_two_tier_fs UserConfig_default
       ''./.gitguardian.yaml'' = ([], None, ?b)"
    by blast
  have global_found: "first_existing example_two_tier_fs
       (map (get_global_path example_externals) (GLOBAL_CONFIG_FILENAMES example_externals))
     = Some ''/home/user/.config/ggshield/.gitguardian.yml''"
    by (simp add: example_externals_def example_two_tier_fs_def exists_def)
  have local_found: "first_existing example_two_tier_fs (LOCAL_CONFIG_PATHS example_externals)
     = Some ''./.gitguardian.yaml''"
    by (simp add: example_externals_def example_two_tier_fs_def exists_def)
  have "load example_externals example_two_tier_fs None
          = ([] @ [], Inr (?b, ''./.gitguardian.yaml''))"
    by (rule later_tier_replaces_earlier
          [where g = "''/home/user/.config/ggshield/.gitguardian.yml''" and cg = ?a,
           THEN conjunct2, THEN conjunct2, THEN conjunct2, THEN mp])
       (simp only: global_found local_found tier_a alone simp_thms)
  then have both: "load example_externals example_two_tier_fs None
          = ([], Inr (?b, ''./.gitguardian.yaml''))"
    by simp
  show ?thesis
    by (intro conjI tier_a tier_b alone global_found local_found both)
qed

section \<open>Properties of the migration\<close>

lemma check_unknown_Inr:
  "check_unknown ext path declared d = Inr u \<longleftrightarrow>
     (unknown_raise ext \<longrightarrow> dom (map_of d) \<subseteq> set declared)"
proof -
  have "filter (\<lambda>k. k \<notin> set declared) (map fst d) = [] \<longleftrightarrow> dom (map_of d) \<subseteq> set declared"
    by (auto simp: filter_empty_conv dom_map_of_conv_image_fst)
  then show ?thesis
    by (auto simp: check_unknown_def split: list.splits)
qed

lemma map_add_upd_left: "m k = None \<Longrightarrow> (a ++ m)(k \<mapsto> v) = a(k \<mapsto> v) ++ m"
  by (rule ext) (simp add: map_add_def split: option.splits)

lemma map_add_del_left: "m k = None \<Longrightarrow> (a ++ m)(k := None) = a(k := None) ++ m"
  by (rule ext) (simp add: map_add_def split: option.splits)

lemma map_add_other: "m k = None \<Longrightarrow> (a ++ m) k = a k"
  by (simp add: map_add_def)

lemma pop_api_url_add:
  assumes "pop_api_url ext d = (w, Inr e)" and "map_of d' = map_of d ++ m"
    and "m ''api_url'' = None" and "m ''instance'' = None"
  shows "\<exists>e'. pop_api_url ext d' = (w, Inr e') \<and> map_of e' = map_of e ++ m"
proof (cases "map_of d ''api_url''")
  case None
  with assms show ?thesis
    by (simp add: pop_api_url_def map_add_other)
next
  case (Some u)
  show ?thesis
  proof (cases "map_of d ''instance''")
    case None
    with Some assms show ?thesis
      by (auto simp: pop_api_url_def map_add_other AList.delete_conv' AList.update_conv'
          map_add_upd_left map_add_del_left split: prod.splits sum.splits)
  next
    case (Some i)
    with \<open>map_of d ''api_url'' = Some u\<close> assms show ?thesis
      by (auto simp: pop_api_url_def map_add_other AList.delete_conv' map_add_del_left)
  qed
qed

lemma update_matches_ignore_add:
  assumes "update_matches_ignore d = Inr f" and "map_of d' = map_of d ++ m"
    and "m ''matches_ignore'' = None"
  shows "\<exists>f'. update_matches_ignore d' = Inr f' \<and> map_of f' = map_of f ++ m"
  using assms
  by (auto simp: update_matches_ignore_def map_add_other AList.update_conv' map_add_upd_left
      split: option.splits if_splits yaml.splits)

lemma update_matches_ignore_other_keys:
  "update_matches_ignore d = Inr f \<Longrightarrow> k \<noteq> ''matches_ignore'' \<Longrightarrow> map_of f k = map_of d k"
  by (auto simp: update_matches_ignore_def AList.update_conv'
      split: option.splits if_splits yaml.splits)

lemma load_v1_steps:
  "pop_api_url ext data = (wa, Inr e) \<Longrightarrow> update_matches_ignore e = Inr f \<Longrightarrow>
   UserV1ConfigSchema_load ext f = Inr v \<Longrightarrow>
   load_v1 ext data =
     (wa @ (if all_policies v then [all_policies_warning] else [])
         @ (if ignore_default_excludes v then [ignore_default_excludes_warning] else []),
      and_then (SecretConfig_init ext (v1_show_secrets v) (banlisted_detectors v)
                  (matches_ignore v) (paths_ignore v))
        (\<lambda>s. Inr \<lparr>iac = IaCConfig_default, instance_url = v1_instance v,
                   exit_zero = v1_exit_zero v, verbose = v1_verbose v,
                   allow_self_signed = v1_allow_self_signed v,
                   max_commits_for_hook = v1_max_commits_for_hook v, secret = s\<rparr>))"
  by (simp add: load_v1_def Let_def)

lemma load_v1_success:
  assumes "load_v1 ext data = (w, Inr cfg)"
  obtains wa e f v s where "pop_api_url ext data = (wa, Inr e)"
    and "update_matches_ignore e = Inr f" and "UserV1ConfigSchema_load ext f = Inr v"
    and "SecretConfig_init ext (v1_show_secrets v) (banlisted_detectors v)
           (matches_ignore v) (paths_ignore v) = Inr s"
    and "cfg = \<lparr>iac = IaCConfig_default, instance_url = v1_instance v,
                exit_zero = v1_exit_zero v, verbose = v1_verbose v,
                allow_self_signed = v1_allow_self_signed v,
                max_commits_for_hook = v1_max_commits_for_hook v, secret = s\<rparr>"
  using assms
  by (auto simp: load_v1_def Let_def and_then_eq_Inr
      split: prod.splits sum.splits)

lemma UserV1ConfigSchema_load_flags:
  assumes "UserV1ConfigSchema_load ext d = Inr v"
    and "map_of d' = (map_of d)(''all_policies'' \<mapsto> YBool p,
                                 ''ignore_default_excludes'' \<mapsto> YBool q)"
  shows "UserV1ConfigSchema_load ext d' =
           Inr (v\<lparr>all_policies := p, ignore_default_excludes := q\<rparr>)"
proof -
  have other: "load_field d' k f x = load_field d k f x"
    if "k \<noteq> ''all_policies''" and "k \<noteq> ''ignore_default_excludes''" for k f and x :: 'a
    using that assms(2) by (simp add: load_field_def)
  have ap: "load_field d' ''all_policies'' (load_bool [''all_policies'']) False = Inr p"
    using assms(2) by (simp add: load_field_def load_bool_def)
  have ide: "load_field d' ''ignore_default_excludes''
               (load_bool [''ignore_default_excludes'']) False = Inr q"
    using assms(2) by (simp add: load_field_def load_bool_def)
  have known: "check_unknown ext [] declared d = Inr () \<Longrightarrow>
      ''all_policies'' \<in> set declared \<Longrightarrow> ''ignore_default_excludes'' \<in> set declared \<Longrightarrow>
      check_unknown ext [] declared d' = Inr ()" for declared
    using assms(2) by (auto simp: check_unknown_Inr)
  from assms(1) show ?thesis
    unfolding UserV1ConfigSchema_load_def
    by (auto simp: and_then_eq_Inr other ap ide known)
qed

text \<open>
  C9. Where \<open>load_v1\<close> returns a configuration for a document, it returns the same
  configuration for the document with \<open>all_policies\<close> and \<open>ignore_default_excludes\<close> set
  to any two booleans; only the warnings follow the two values. The \<open>iac\<close> field of the
  configuration is the default \<open>IaCConfig\<close>.
\<close>

theorem deprecated_flags_only_warn:
  "load_v1 ext data = (w, Inr cfg) \<longrightarrow>
     iac cfg = IaCConfig_default
     \<and> load_v1 ext (AList.update ''all_policies'' (YBool p)
                     (AList.update ''ignore_default_excludes'' (YBool q) data))
         = (fst (pop_api_url ext data)
              @ (if p then [all_policies_warning] else [])
              @ (if q then [ignore_default_excludes_warning] else []),
            Inr cfg)"
proof
  assume "load_v1 ext data = (w, Inr cfg)"
  then obtain wa e f v s where pop: "pop_api_url ext data = (wa, Inr e)"
    and umi: "update_matches_ignore e = Inr f"
    and v1: "UserV1ConfigSchema_load ext f = Inr v"
    and init: "SecretConfig_init ext (v1_show_secrets v) (banlisted_detectors v)
           (matches_ignore v) (paths_ignore v) = Inr s"
    and cfg: "cfg = \<lparr>iac = IaCConfig_default, instance_url = v1_instance v,
                exit_zero = v1_exit_zero v, verbose = v1_verbose v,
                allow_self_signed = v1_allow_self_signed v,
                max_commits_for_hook = v1_max_commits_for_hook v, secret = s\<rparr>"
    by (rule load_v1_success)
  let ?m = "[''ignore_default_excludes'' \<mapsto> YBool q, ''all_policies'' \<mapsto> YBool p]"
  let ?d = "AList.update ''all_policies'' (YBool p)
              (AList.update ''ignore_default_excludes'' (YBool q) data)"
  have d: "map_of ?d = map_of data ++ ?m"
    by (simp add: AList.update_conv')
  from pop_api_url_add [OF pop d] obtain e' where pop': "pop_api_url ext ?d = (wa, Inr e')"
    and e': "map_of e' = map_of e ++ ?m"
    by auto
  from update_matches_ignore_add [OF umi e'] obtain f'
    where umi': "update_matches_ignore e' = Inr f'" and f': "map_of f' = map_of f ++ ?m"
    by auto
  from f' have "map_of f' = (map_of f)(''all_policies'' \<mapsto> YBool p,
                                         ''ignore_default_excludes'' \<mapsto> YBool q)"
    by (simp add: fun_upd_twist)
  from UserV1ConfigSchema_load_flags [OF v1 this]
  have v1': "UserV1ConfigSchema_load ext f' =
               Inr (v\<lparr>all_policies := p, ignore_default_excludes := q\<rparr>)" .
  show "iac cfg = IaCConfig_default
     \<and> load_v1 ext ?d
         = (fst (pop_api_url ext data)
              @ (if p then [all_policies_warning] else [])
              @ (if q then [ignore_default_excludes_warning] else []),
            Inr cfg)"
    by (simp add: load_v1_steps [OF pop' umi' v1'] pop init cfg)
qed

theorem deprecated_flags_only_warn_witness:
  "load_v1 example_externals [(''all_policies'', YBool True), (''verbose'', YBool True)]
     = ([all_policies_warning], Inr (UserConfig_default\<lparr>verbose := True\<rparr>))
   \<and> iac (UserConfig_default\<lparr>verbose := True\<rparr>) = IaCConfig_default
   \<and> load_v1 example_externals
       (AList.update ''all_policies'' (YBool False)
          (AList.update ''ignore_default_excludes'' (YBool True)
             [(''all_policies'', YBool True), (''verbose'', YBool True)]))
     = ([ignore_default_excludes_warning], Inr (UserConfig_default\<lparr>verbose := True\<rparr>))"
proof -
  have migrated: "load_v1 example_externals
      [(''all_policies'', YBool True), (''verbose'', YBool True)]
     = ([all_policies_warning], Inr (UserConfig_default\<lparr>verbose := True\<rparr>))"
    by (simp add: load_v1_def pop_api_url_def update_matches_ignore_def
        UserV1ConfigSchema_load_def check_unknown_def load_field_def load_bool_def
        SecretConfig_init_def example_externals_def UserConfig_default_def
        SecretConfig_default_def)
  have popped: "fst (pop_api_url example_externals
      [(''all_policies'', YBool True), (''verbose'', YBool True)]) = []"
    by (simp add: pop_api_url_def)
  from deprecated_flags_only_warn
    [of example_externals "[(''all_policies'', YBool True), (''verbose'', YBool True)]"
        "[all_policies_warning]" "UserConfig_default\<lparr>verbose := True\<rparr>" False True]
    migrated popped
  show ?thesis
    by simp
qed

lemma UserV1ConfigSchema_load_instance:
  "UserV1ConfigSchema_load ext f = Inr v \<Longrightarrow>
   load_field f ''instance'' (load_optional_str [''instance'']) None = Inr (v1_instance v)"
  unfolding UserV1ConfigSchema_load_def
  by (auto simp: and_then_eq_Inr)

lemma load_optional_str_dump:
  "load_optional_str path i = Inr x \<Longrightarrow> dump_optional_str x = i"
  by (cases i) (auto simp: load_optional_str_def dump_optional_str_def)

lemma pop_api_url_without_instance:
  assumes "map_of data ''api_url'' = Some u" and "map_of data ''instance'' = None"
  shows "pop_api_url ext data =
           (case api_to_dashboard_url ext u True of
              (wa, Inl x) \<Rightarrow> (wa, Inl x)
            | (wa, Inr url) \<Rightarrow>
                (wa, Inr (AList.update ''instance'' (YStr url) (AList.delete ''api_url'' data))))"
  using assms by (simp add: pop_api_url_def AList.delete_conv')

lemma pop_api_url_with_instance:
  assumes "map_of data ''api_url'' = Some u" and "map_of data ''instance'' = Some i"
  shows "pop_api_url ext data = ([], Inr (AList.delete ''api_url'' data))"
  using assms by (simp add: pop_api_url_def AList.delete_conv')

lemma pop_api_url_absent:
  "map_of data ''api_url'' = None \<Longrightarrow> pop_api_url ext data = ([], Inr data)"
  by (simp add: pop_api_url_def)

lemma load_v1_warnings_start:
  "load_v1 ext data = (w, r) \<Longrightarrow> pop_api_url ext data = (wa, x) \<Longrightarrow> take (length wa) w = wa"
  by (auto simp: load_v1_def Let_def split: sum.splits)

text \<open>
  C5. Where a version-1 document has \<open>api_url\<close> and no \<open>instance\<close> and is migrated, the
  conversion was called on the value of \<open>api_url\<close> with \<open>warn\<close> set, the deprecation
  warning is the first warning displayed, and the URL derived from \<open>api_url\<close> is the
  \<open>instance\<close> of the configuration. Where the document has both keys, the first step
  displays nothing, \<open>load_v1\<close> does exactly what it does on the document without
  \<open>api_url\<close>, and the \<open>instance\<close> of a migrated configuration is the document's value.
  The document with the API URL of the public instance and one bare hash migrates,
  with the deprecation warning, to the default configuration with the dashboard URL
  as \<open>instance\<close> and the one ignored match.
\<close>

theorem api_url_becomes_instance:
  "(map_of data ''api_url'' = Some u \<and> map_of data ''instance'' = None
      \<and> load_v1 ext data = (w, Inr cfg) \<longrightarrow>
      (\<exists>url. dashboard_url_of ext u = Inr url
          \<and> api_to_dashboard_url ext u True = ([api_url_deprecation_warning ext], Inr url)
          \<and> instance_url cfg = Some url
          \<and> w \<noteq> [] \<and> hd w = api_url_deprecation_warning ext))
   \<and> (map_of data ''api_url'' = Some u \<and> map_of data ''instance'' = Some i \<longrightarrow>
        fst (pop_api_url ext data) = []
        \<and> load_v1 ext data = load_v1 ext (AList.delete ''api_url'' data)
        \<and> (load_v1 ext data = (w, Inr cfg) \<longrightarrow> dump_optional_str (instance_url cfg) = i))
   \<and> (dashboard_url_of ext (YStr ''https://api.gitguardian.com'') = Inr dashboard
        \<and> post_init_ignored_match ext \<lparr>name = [], match = ''deadbeef''\<rparr> = Inr m \<longrightarrow>
        load_v1 ext [(''api_url'', YStr ''https://api.gitguardian.com''),
                     (''matches_ignore'', YList [YStr ''deadbeef''])]
          = ([api_url_deprecation_warning ext],
             Inr (UserConfig_default\<lparr>instance_url := Some dashboard,
                    secret := SecretConfig_default\<lparr>ignored_matches := [m]\<rparr>\<rparr>)))"
proof (intro conjI impI)
  assume a: "map_of data ''api_url'' = Some u \<and> map_of data ''instance'' = None
      \<and> load_v1 ext data = (w, Inr cfg)"
  then obtain wa e f v s where pop: "pop_api_url ext data = (wa, Inr e)"
    and umi: "update_matches_ignore e = Inr f"
    and v1: "UserV1ConfigSchema_load ext f = Inr v"
    and cfg: "cfg = \<lparr>iac = IaCConfig_default, instance_url = v1_instance v,
                exit_zero = v1_exit_zero v, verbose = v1_verbose v,
                allow_self_signed = v1_allow_self_signed v,
                max_commits_for_hook = v1_max_commits_for_hook v, secret = s\<rparr>"
    by (auto elim: load_v1_success)
  from a pop obtain url where call: "api_to_dashboard_url ext u True = (wa, Inr url)"
    and e: "e = AList.update ''instance'' (YStr url) (AList.delete ''api_url'' data)"
    by (auto simp: pop_api_url_without_instance split: prod.splits sum.splits)
  from call have wa: "wa = [api_url_deprecation_warning ext]"
    and url: "dashboard_url_of ext u = Inr url"
    by (simp_all add: api_to_dashboard_url_def)
  from e have "map_of e ''instance'' = Some (YStr url)"
    by (simp add: AList.update_conv')
  with umi have "map_of f ''instance'' = Some (YStr url)"
    by (simp add: update_matches_ignore_other_keys)
  with UserV1ConfigSchema_load_instance [OF v1] have "v1_instance v = Some url"
    by (simp add: load_field_def load_optional_str_def)
  with cfg have inst: "instance_url cfg = Some url"
    by simp
  from a pop have "take (length wa) w = wa"
    by (blast intro: load_v1_warnings_start)
  with wa have "w \<noteq> [] \<and> hd w = api_url_deprecation_warning ext"
    by (cases w) auto
  with url call wa inst
  show "\<exists>url. dashboard_url_of ext u = Inr url
          \<and> api_to_dashboard_url ext u True = ([api_url_deprecation_warning ext], Inr url)
          \<and> instance_url cfg = Some url
          \<and> w \<noteq> [] \<and> hd w = api_url_deprecation_warning ext"
    by blast
next
  assume a: "map_of data ''api_url'' = Some u \<and> map_of data ''instance'' = Some i"
  then show "fst (pop_api_url ext data) = []"
    by (simp add: pop_api_url_with_instance)
next
  assume a: "map_of data ''api_url'' = Some u \<and> map_of data ''instance'' = Some i"
  then have pop: "pop_api_url ext data = ([], Inr (AList.delete ''api_url'' data))"
    by (simp add: pop_api_url_with_instance)
  have "map_of (AList.delete ''api_url'' data) ''api_url'' = None"
    by (simp add: AList.delete_conv')
  then have "pop_api_url ext (AList.delete ''api_url'' data)
               = ([], Inr (AList.delete ''api_url'' data))"
    by (rule pop_api_url_absent)
  with pop show "load_v1 ext data = load_v1 ext (AList.delete ''api_url'' data)"
    by (simp add: load_v1_def)
next
  assume a: "map_of data ''api_url'' = Some u \<and> map_of data ''instance'' = Some i"
    and b: "load_v1 ext data = (w, Inr cfg)"
  from a have pop: "pop_api_url ext data = ([], Inr (AList.delete ''api_url'' data))"
    by (simp add: pop_api_url_with_instance)
  from b obtain wa e f v s where pop': "pop_api_url ext data = (wa, Inr e)"
    and umi: "update_matches_ignore e = Inr f"
    and v1: "UserV1ConfigSchema_load ext f = Inr v"
    and cfg: "cfg = \<lparr>iac = IaCConfig_default, instance_url = v1_instance v,
                exit_zero = v1_exit_zero v, verbose = v1_verbose v,
                allow_self_signed = v1_allow_self_signed v,
                max_commits_for_hook = v1_max_commits_for_hook v, secret = s\<rparr>"
    by (auto elim: load_v1_success)
  from pop pop' a have "map_of e ''instance'' = Some i"
    by (simp add: AList.delete_conv')
  with umi have "map_of f ''instance'' = Some i"
    by (simp add: update_matches_ignore_other_keys)
  with UserV1ConfigSchema_load_instance [OF v1]
  have "load_optional_str [''instance''] i = Inr (v1_instance v)"
    by (simp add: load_field_def)
  then have "dump_optional_str (v1_instance v) = i"
    by (rule load_optional_str_dump)
  with cfg show "dump_optional_str (instance_url cfg) = i"
    by simp
next
  assume a: "dashboard_url_of ext (YStr ''https://api.gitguardian.com'') = Inr dashboard
        \<and> post_init_ignored_match ext \<lparr>name = [], match = ''deadbeef''\<rparr> = Inr m"
  let ?data = "[(''api_url'', YStr ''https://api.gitguardian.com''),
                (''matches_ignore'', YList [YStr ''deadbeef''])]"
  let ?e = "[(''matches_ignore'', YList [YStr ''deadbeef'']), (''instance'', YStr dashboard)]"
  let ?f = "[(''matches_ignore'',
                YList [YDict [(''name'', YStr ''''), (''match'', YStr ''deadbeef'')]]),
             (''instance'', YStr dashboard)]"
  let ?v = "\<lparr>v1_instance = Some dashboard, all_policies = False, v1_exit_zero = False,
             matches_ignore = [\<lparr>name = [], match = ''deadbeef''\<rparr>], paths_ignore = {},
             v1_verbose = False, v1_allow_self_signed = False, v1_max_commits_for_hook = 50,
             ignore_default_excludes = False, v1_show_secrets = False,
             banlisted_detectors = {}\<rparr>"
  from a have pop: "pop_api_url ext ?data = ([api_url_deprecation_warning ext], Inr ?e)"
    by (simp add: pop_api_url_def api_to_dashboard_url_def)
  have umi: "update_matches_ignore ?e = Inr ?f"
    by (simp add: update_matches_ignore_def update_matches_ignore_loop_map)
  have entry: "load_ignored_match ext [''matches_ignore'']
                 (YDict [(''name'', YStr ''''), (''match'', YStr ''deadbeef'')])
               = Inr \<lparr>name = [], match = ''deadbeef''\<rparr>"
    by (simp add: load_ignored_match_def load_nested_def check_unknown_def load_required_def
        load_str_def)
  have v1: "UserV1ConfigSchema_load ext ?f = Inr ?v"
    by (simp add: UserV1ConfigSchema_load_def check_unknown_def load_field_def load_list_def
        entry load_optional_str_def)
  from a show "load_v1 ext ?data
          = ([api_url_deprecation_warning ext],
             Inr (UserConfig_default\<lparr>instance_url := Some dashboard,
                    secret := SecretConfig_default\<lparr>ignored_matches := [m]\<rparr>\<rparr>))"
    by (simp add: load_v1_steps [OF pop umi v1] SecretConfig_init_def UserConfig_default_def
        SecretConfig_default_def)
qed

theorem api_url_becomes_instance_witness:
  "map_of [(''api_url'', YStr ''https://api.gitguardian.com''), (''verbose'', YBool True)]
       ''api_url'' = Some (YStr ''https://api.gitguardian.com'')
   \<and> map_of [(''api_url'', YStr ''https://api.gitguardian.com''), (''verbose'', YBool True)]
       ''instance'' = None
   \<and> load_v1 example_externals
       [(''api_url'', YStr ''https://api.gitguardian.com''), (''verbose'', YBool True)]
     = ([''api_url is deprecated''],
        Inr (UserConfig_default\<lparr>instance_url := Some ''https://dashboard.gitguardian.com'',
                                  verbose := True\<rparr>))
   \<and> (\<exists>url. dashboard_url_of example_externals (YStr ''https://api.gitguardian.com'') = Inr url
          \<and> api_to_dashboard_url example_externals (YStr ''https://api.gitguardian.com'') True
               = ([api_url_deprecation_warning example_externals], Inr url)
          \<and> instance_url (UserConfig_default\<lparr>instance_url := Some ''https://dashboard.gitguardian.com'',
                                  verbose := True\<rparr>) = Some url
          \<and> [''api_url is deprecated''] \<noteq> []
          \<and> hd [''api_url is deprecated''] = api_url_deprecation_warning example_externals)
   \<and> map_of [(''api_url'', YStr ''https://api.gitguardian.com''), (''instance'', YStr ''https://gg.example.com'')]
       ''instance'' = Some (YStr ''https://gg.example.com'')
   \<and> load_v1 example_externals
       [(''api_url'', YStr ''https://api.gitguardian.com''), (''instance'', YStr ''https://gg.example.com'')]
     = load_v1 example_externals [(''instance'', YStr ''https://gg.example.com'')]
   \<and> dashboard_url_of example_externals (YStr ''https://api.gitguardian.com'')
     = Inr ''https://dashboard.gitguardian.com''
   \<and> load_v1 example_externals
       [(''api_url'', YStr ''https://api.gitguardian.com''),
        (''matches_ignore'', YList [YStr ''deadbeef''])]
     = ([api_url_deprecation_warning example_externals],
        Inr (UserConfig_default\<lparr>instance_url := Some ''https://dashboard.gitguardian.com'',
               secret := SecretConfig_default\<lparr>ignored_matches :=
                           [\<lparr>name = [], match = ''deadbeef''\<rparr>]\<rparr>\<rparr>))"
proof -
  let ?d1 = "[(''api_url'', YStr ''https://api.gitguardian.com''), (''verbose'', YBool True)]"
  let ?c1 = "UserConfig_default\<lparr>instance_url := Some ''https://dashboard.gitguardian.com'',
                                  verbose := True\<rparr>"
  let ?d2 = "[(''api_url'', YStr ''https://api.gitguardian.com''),
              (''instance'', YStr ''https://gg.example.com'')]"
  have h1: "map_of ?d1 ''api_url'' = Some (YStr ''https://api.gitguardian.com'')"
    and h2: "map_of ?d1 ''instance'' = None"
    and h3: "map_of ?d2 ''api_url'' = Some (YStr ''https://api.gitguardian.com'')"
    and h4: "map_of ?d2 ''instance'' = Some (YStr ''https://gg.example.com'')"
    by simp_all
  have migrated: "load_v1 example_externals ?d1 = ([''api_url is deprecated''], Inr ?c1)"
    by (simp add: load_v1_def pop_api_url_def api_to_dashboard_url_def update_matches_ignore_def
        UserV1ConfigSchema_load_def check_unknown_def load_field_def load_bool_def
        load_optional_str_def SecretConfig_init_def example_externals_def UserConfig_default_def
        SecretConfig_default_def)
  have call: "dashboard_url_of example_externals (YStr ''https://api.gitguardian.com'')
                = Inr ''https://dashboard.gitguardian.com''"
    and post: "post_init_ignored_match example_externals \<lparr>name = [], match = ''deadbeef''\<rparr>
                = Inr \<lparr>name = [], match = ''deadbeef''\<rparr>"
    by (simp_all add: example_externals_def)
  note first = api_url_becomes_instance
    [where data = ?d1 and ext = example_externals and w = "[''api_url is deprecated'']"
       and cfg = ?c1 and u = "YStr ''https://api.gitguardian.com''", THEN conjunct1, THEN mp,
     OF conjI [OF h1 conjI [OF h2 migrated]]]
  note second = api_url_becomes_instance
    [where data = ?d2 and ext = example_externals and u = "YStr ''https://api.gitguardian.com''"
       and i = "YStr ''https://gg.example.com''", THEN conjunct2, THEN conjunct1, THEN mp,
     OF conjI [OF h3 h4], THEN conjunct2, THEN conjunct1]
  note third = api_url_becomes_instance
    [where ext = example_externals, THEN conjunct2, THEN conjunct2, THEN mp,
     OF conjI [OF call post]]
  from second have second': "load_v1 example_externals ?d2
     = load_v1 example_externals [(''instance'', YStr ''https://gg.example.com'')]"
    by simp
  show ?thesis
    by (intro conjI h1 h2 h4 migrated first second' call third)
qed

section \<open>Properties of the round trip\<close>

lemma remove_common_dict_items_Cons:
  "remove_common_dict_items ((key, v) # rest) r =
     (case v of
        YDict d \<Rightarrow>
          (case map_of r key of
             Some (YDict rd) \<Rightarrow>
               (if remove_common_dict_items d rd = [] then remove_common_dict_items rest r
                else (key, YDict (remove_common_dict_items d rd)) # remove_common_dict_items rest r)
           | _ \<Rightarrow> (key, YDict d) # remove_common_dict_items rest r)
      | _ \<Rightarrow>
          (if map_of r key = Some v then remove_common_dict_items rest r
           else (key, v) # remove_common_dict_items rest r))"
  by (cases v) (simp_all add: Let_def split: option.splits yaml.splits)

lemma remove_common_dict_items_keys:
  "fst ` set (remove_common_dict_items d r) \<subseteq> fst ` set d"
proof (induction d)
  case Nil
  then show ?case by simp
next
  case (Cons p d)
  obtain key v where p: "p = (key, v)"
    by (cases p)
  from Cons show ?case
    unfolding p remove_common_dict_items_Cons
    by (auto split: yaml.splits option.splits if_splits)
qed

lemma remove_common_dict_items_absent:
  "k \<notin> fst ` set d \<Longrightarrow> map_of (remove_common_dict_items d r) k = None"
  using remove_common_dict_items_keys [of d r]
  by (auto simp: map_of_eq_None_iff)

lemma remove_common_dict_items_flat:
  "distinct (map fst d) \<Longrightarrow> map_of d k = Some v \<Longrightarrow> \<forall>x. v \<noteq> YDict x \<Longrightarrow>
   map_of (remove_common_dict_items d r) k = (if map_of r k = Some v then None else Some v)"
proof (induction d)
  case Nil
  then show ?case by simp
next
  case (Cons p d)
  obtain key u where p: "p = (key, u)"
    by (cases p)
  show ?case
  proof (cases "key = k")
    case True
    with Cons.prems p have "u = v" and "k \<notin> fst ` set d"
      by auto
    with True Cons.prems show ?thesis
      unfolding p remove_common_dict_items_Cons
      by (cases v) (simp_all add: remove_common_dict_items_absent)
  next
    case False
    with Cons p have "map_of (remove_common_dict_items d r) k
                        = (if map_of r k = Some v then None else Some v)"
      by simp
    with False show ?thesis
      unfolding p remove_common_dict_items_Cons
      by (simp split: yaml.splits option.splits)
  qed
qed

lemma remove_common_dict_items_nested:
  "distinct (map fst d) \<Longrightarrow> map_of d k = Some (YDict x) \<Longrightarrow> map_of r k = Some (YDict y) \<Longrightarrow>
   map_of (remove_common_dict_items d r) k =
     (if remove_common_dict_items x y = [] then None
      else Some (YDict (remove_common_dict_items x y)))"
proof (induction d)
  case Nil
  then show ?case by simp
next
  case (Cons p d)
  obtain key u where p: "p = (key, u)"
    by (cases p)
  show ?case
  proof (cases "key = k")
    case True
    with Cons.prems p have "u = YDict x" and "k \<notin> fst ` set d"
      by auto
    with True Cons.prems show ?thesis
      unfolding p remove_common_dict_items_Cons
      by (simp add: remove_common_dict_items_absent)
  next
    case False
    with Cons p have "map_of (remove_common_dict_items d r) k =
       (if remove_common_dict_items x y = [] then None
        else Some (YDict (remove_common_dict_items x y)))"
      by simp
    with False show ?thesis
      unfolding p remove_common_dict_items_Cons
      by (simp split: yaml.splits option.splits)
  qed
qed

lemma load_field_pruned_flat:
  assumes "distinct (map fst d)" and "map_of d k = Some v" and "\<forall>x. v \<noteq> YDict x"
    and "map_of r k = Some v0" and "f v = Inr x" and "v = v0 \<Longrightarrow> x = dflt"
  shows "load_field (remove_common_dict_items d r) k f dflt = Inr x"
  using assms by (simp add: load_field_def remove_common_dict_items_flat)

lemma load_field_pruned_nested:
  assumes "distinct (map fst d)" and "map_of d k = Some (YDict sd)"
    and "map_of r k = Some (YDict sr)"
    and "g (remove_common_dict_items sd sr) = Inr x" and "g [] = Inr dflt"
  shows "load_field (remove_common_dict_items d r) k (load_nested p g) dflt = Inr x"
  using assms by (auto simp: load_field_def remove_common_dict_items_nested load_nested_def)

lemma check_unknown_pruned:
  assumes "fst ` set d \<subseteq> set declared"
  shows "check_unknown ext path declared (remove_common_dict_items d r) = Inr ()"
proof -
  have "dom (map_of (remove_common_dict_items d r)) \<subseteq> fst ` set d"
    using remove_common_dict_items_keys [of d r] by (simp add: dom_map_of_conv_image_fst)
  with assms show ?thesis
    by (simp add: check_unknown_Inr) blast
qed

lemma load_each_map_YStr: "load_each (load_str path) (map YStr xs) = Inr xs"
  by (induction xs) (simp_all add: load_str_def)

lemma load_str_set_dump: "finite S \<Longrightarrow> load_str_set path (dump_str_set S) = Inr S"
  by (simp add: load_str_set_def dump_str_set_def load_list_def load_each_map_YStr)

lemma dump_str_set_eq_empty: "finite S \<Longrightarrow> dump_str_set S = dump_str_set {} \<Longrightarrow> S = {}"
  by (simp add: dump_str_set_def)

lemma load_ignored_match_dump:
  "load_ignored_match ext path (dump_ignored_match m) = Inr m"
  by (simp add: load_ignored_match_def dump_ignored_match_def load_nested_def check_unknown_def
      load_required_def load_str_def)

lemma load_each_ignored_matches:
  "load_each (load_ignored_match ext path) (map dump_ignored_match ms) = Inr ms"
  by (induction ms) (simp_all add: load_ignored_match_dump)

lemma post_init_all_fixed:
  "\<forall>m \<in> set ms. f m = Inr m \<Longrightarrow> post_init_all f ms = Inr ms"
  by (induction ms) simp_all

lemma post_init_all_results:
  "post_init_all f ms = Inr ms' \<Longrightarrow> \<forall>m' \<in> set ms'. \<exists>m. f m = Inr m'"
proof (induction ms arbitrary: ms')
  case Nil
  then show ?case by simp
next
  case (Cons m ms)
  then show ?case
    by (auto simp: and_then_eq_Inr)
qed

lemma load_str_set_finite: "load_str_set path v = Inr S \<Longrightarrow> finite S"
  by (auto simp: load_str_set_def and_then_eq_Inr)

lemma load_field_str_set_finite:
  "load_field d k (load_str_set path) {} = Inr S \<Longrightarrow> finite S"
  by (auto simp: load_field_def split: option.splits dest: load_str_set_finite)

lemma load_field_pruned_bool:
  "distinct (map fst d) \<Longrightarrow> map_of d k = Some (YBool b) \<Longrightarrow> map_of r k = Some (YBool b0) \<Longrightarrow>
   load_field (remove_common_dict_items d r) k (load_bool path) b0 = Inr b"
  by (rule load_field_pruned_flat [where v = "YBool b" and ?v0.0 = "YBool b0"])
     (simp_all add: load_bool_def)

lemma load_field_pruned_int:
  "distinct (map fst d) \<Longrightarrow> map_of d k = Some (YInt n) \<Longrightarrow> map_of r k = Some (YInt n0) \<Longrightarrow>
   load_field (remove_common_dict_items d r) k (load_int path) n0 = Inr n"
  by (rule load_field_pruned_flat [where v = "YInt n" and ?v0.0 = "YInt n0"])
     (simp_all add: load_int_def)

lemma load_field_pruned_str:
  "distinct (map fst d) \<Longrightarrow> map_of d k = Some (YStr s) \<Longrightarrow> map_of r k = Some (YStr s0) \<Longrightarrow>
   load_field (remove_common_dict_items d r) k (load_str path) s0 = Inr s"
  by (rule load_field_pruned_flat [where v = "YStr s" and ?v0.0 = "YStr s0"])
     (simp_all add: load_str_def)

lemma load_field_pruned_optional_str:
  "distinct (map fst d) \<Longrightarrow> map_of d k = Some (dump_optional_str s) \<Longrightarrow>
   map_of r k = Some (dump_optional_str None) \<Longrightarrow>
   load_field (remove_common_dict_items d r) k (load_optional_str path) None = Inr s"
  by (rule load_field_pruned_flat
        [where v = "dump_optional_str s" and ?v0.0 = "dump_optional_str None"])
     (auto simp: load_optional_str_def dump_optional_str_def split: option.splits)

lemma load_field_pruned_set:
  "distinct (map fst d) \<Longrightarrow> map_of d k = Some (dump_str_set S) \<Longrightarrow>
   map_of r k = Some (dump_str_set {}) \<Longrightarrow> finite S \<Longrightarrow>
   load_field (remove_common_dict_items d r) k (load_str_set path) {} = Inr S"
  by (rule load_field_pruned_flat [where v = "dump_str_set S" and ?v0.0 = "dump_str_set {}"])
     (simp_all add: load_str_set_dump dump_str_set_eq_empty, simp add: dump_str_set_def)

lemma load_field_pruned_matches:
  "distinct (map fst d) \<Longrightarrow> map_of d k = Some (YList (map dump_ignored_match ms)) \<Longrightarrow>
   map_of r k = Some (YList []) \<Longrightarrow>
   load_field (remove_common_dict_items d r) k
     (load_list path (load_ignored_match ext path')) [] = Inr ms"
  by (rule load_field_pruned_flat
        [where v = "YList (map dump_ignored_match ms)" and ?v0.0 = "YList []"])
     (simp_all add: load_list_def load_each_ignored_matches)

lemma SecretConfigSchema_roundtrip:
  assumes "finite (ignored_detectors s)" and "finite (ignored_paths s)"
    and "\<forall>m \<in> set (ignored_matches s). post_init_ignored_match ext m = Inr m"
  shows "SecretConfigSchema_load ext path
           (remove_common_dict_items (SecretConfigSchema_dump s)
              (SecretConfigSchema_dump SecretConfig_default)) = Inr s"
proof -
  let ?d = "SecretConfigSchema_dump s" and ?r = "SecretConfigSchema_dump SecretConfig_default"
  let ?p = "remove_common_dict_items ?d ?r"
  have dist: "distinct (map fst ?d)"
    by (simp add: SecretConfigSchema_dump_def)
  have keys: "check_unknown ext path
      [''show_secrets'', ''ignored_detectors'', ''ignored_matches'', ''ignored_paths''] ?p = Inr ()"
    by (rule check_unknown_pruned) (simp add: SecretConfigSchema_dump_def)
  have f1: "load_field ?p ''show_secrets'' (load_bool (path @ [''show_secrets''])) False
              = Inr (show_secrets s)"
    by (rule load_field_pruned_bool [OF dist])
       (simp_all add: SecretConfigSchema_dump_def SecretConfig_default_def)
  have f2: "load_field ?p ''ignored_detectors''
              (load_str_set (path @ [''ignored_detectors''])) {} = Inr (ignored_detectors s)"
    by (rule load_field_pruned_set [OF dist])
       (simp_all add: SecretConfigSchema_dump_def SecretConfig_default_def assms)
  have f3: "load_field ?p ''ignored_matches''
              (load_list (path @ [''ignored_matches''])
                 (load_ignored_match ext (path @ [''ignored_matches'']))) []
              = Inr (ignored_matches s)"
    by (rule load_field_pruned_matches [OF dist])
       (simp_all add: SecretConfigSchema_dump_def SecretConfig_default_def)
  have f4: "load_field ?p ''ignored_paths'' (load_str_set (path @ [''ignored_paths''])) {}
              = Inr (ignored_paths s)"
    by (rule load_field_pruned_set [OF dist])
       (simp_all add: SecretConfigSchema_dump_def SecretConfig_default_def assms)
  show ?thesis
    by (simp add: SecretConfigSchema_load_def keys f1 f2 f3 f4 SecretConfig_init_def
        post_init_all_fixed assms)
qed

lemma IaCConfigSchema_roundtrip:
  assumes "finite (iac_ignored_paths i)" and "finite (ignored_policies i)"
  shows "IaCConfigSchema_load ext path
           (remove_common_dict_items (IaCConfigSchema_dump i)
              (IaCConfigSchema_dump IaCConfig_default)) = Inr i"
proof -
  let ?d = "IaCConfigSchema_dump i" and ?r = "IaCConfigSchema_dump IaCConfig_default"
  let ?p = "remove_common_dict_items ?d ?r"
  have dist: "distinct (map fst ?d)"
    by (simp add: IaCConfigSchema_dump_def)
  have keys: "check_unknown ext path
      [''ignored_paths'', ''ignored_policies'', ''minimum_severity''] ?p = Inr ()"
    by (rule check_unknown_pruned) (simp add: IaCConfigSchema_dump_def)
  have f1: "load_field ?p ''ignored_paths'' (load_str_set (path @ [''ignored_paths''])) {}
              = Inr (iac_ignored_paths i)"
    by (rule load_field_pruned_set [OF dist])
       (simp_all add: IaCConfigSchema_dump_def IaCConfig_default_def assms)
  have f2: "load_field ?p ''ignored_policies'' (load_str_set (path @ [''ignored_policies''])) {}
              = Inr (ignored_policies i)"
    by (rule load_field_pruned_set [OF dist])
       (simp_all add: IaCConfigSchema_dump_def IaCConfig_default_def assms)
  have f3: "load_field ?p ''minimum_severity'' (load_str (path @ [''minimum_severity''])) ''LOW''
              = Inr (minimum_severity i)"
    by (rule load_field_pruned_str [OF dist])
       (simp_all add: IaCConfigSchema_dump_def IaCConfig_default_def)
  show ?thesis
    by (simp add: IaCConfigSchema_load_def keys f1 f2 f3)
qed

lemma SecretConfigSchema_load_empty:
  "SecretConfigSchema_load ext path [] = Inr SecretConfig_default"
  by (simp add: SecretConfigSchema_load_def SecretConfig_init_def SecretConfig_default_def)

lemma IaCConfigSchema_load_empty:
  "IaCConfigSchema_load ext path [] = Inr IaCConfig_default"
  by (simp add: IaCConfigSchema_load_def IaCConfig_default_def)

lemma UserConfigSchema_roundtrip:
  assumes "finite (iac_ignored_paths (iac c))" and "finite (ignored_policies (iac c))"
    and "finite (ignored_detectors (secret c))" and "finite (ignored_paths (secret c))"
    and "\<forall>m \<in> set (ignored_matches (secret c)). post_init_ignored_match ext m = Inr m"
  shows "UserConfigSchema_load ext
           (remove_common_dict_items (UserConfigSchema_dump c)
              (UserConfigSchema_dump UserConfig_default)) = Inr c"
proof -
  let ?d = "UserConfigSchema_dump c" and ?r = "UserConfigSchema_dump UserConfig_default"
  let ?p = "remove_common_dict_items ?d ?r"
  have dist: "distinct (map fst ?d)"
    by (simp add: UserConfigSchema_dump_def)
  have keys: "check_unknown ext []
      [''iac'', ''instance'', ''exit_zero'', ''verbose'', ''allow_self_signed'',
       ''max_commits_for_hook'', ''secret''] ?p = Inr ()"
    by (rule check_unknown_pruned) (simp add: UserConfigSchema_dump_def)
  have f1: "load_field ?p ''iac'' (load_nested [''iac''] (IaCConfigSchema_load ext [''iac'']))
              IaCConfig_default = Inr (iac c)"
    by (rule load_field_pruned_nested [OF dist,
          where sd = "IaCConfigSchema_dump (iac c)"
            and sr = "IaCConfigSchema_dump IaCConfig_default"])
       (simp_all add: UserConfigSchema_dump_def UserConfig_default_def
          IaCConfigSchema_roundtrip assms IaCConfigSchema_load_empty)
  have f2: "load_field ?p ''instance'' (load_optional_str [''instance'']) None
              = Inr (instance_url c)"
    by (rule load_field_pruned_optional_str [OF dist])
       (simp_all add: UserConfigSchema_dump_def UserConfig_default_def)
  have f3: "load_field ?p ''exit_zero'' (load_bool [''exit_zero'']) False = Inr (exit_zero c)"
    by (rule load_field_pruned_bool [OF dist])
       (simp_all add: UserConfigSchema_dump_def UserConfig_default_def)
  have f4: "load_field ?p ''verbose'' (load_bool [''verbose'']) False = Inr (verbose c)"
    by (rule load_field_pruned_bool [OF dist])
       (simp_all add: UserConfigSchema_dump_def UserConfig_default_def)
  have f5: "load_field ?p ''allow_self_signed'' (load_bool [''allow_self_signed'']) False
              = Inr (allow_self_signed c)"
    by (rule load_field_pruned_bool [OF dist])
       (simp_all add: UserConfigSchema_dump_def UserConfig_default_def)
  have f6: "load_field ?p ''max_commits_for_hook'' (load_int [''max_commits_for_hook'']) 50
              = Inr (max_commits_for_hook c)"
    by (rule load_field_pruned_int [OF dist])
       (simp_all add: UserConfigSchema_dump_def UserConfig_default_def)
  have f7: "load_field ?p ''secret''
              (load_nested [''secret''] (SecretConfigSchema_load ext [''secret'']))
              SecretConfig_default = Inr (secret c)"
    by (rule load_field_pruned_nested [OF dist,
          where sd = "SecretConfigSchema_dump (secret c)"
            and sr = "SecretConfigSchema_dump SecretConfig_default"])
       (simp_all add: UserConfigSchema_dump_def UserConfig_default_def
          SecretConfigSchema_roundtrip assms SecretConfigSchema_load_empty)
  show ?thesis
    by (simp add: UserConfigSchema_load_def keys f1 f2 f3 f4 f5 f6 f7)
qed

lemma SecretConfigSchema_load_sound:
  assumes "SecretConfigSchema_load ext path d = Inr s"
    and "\<forall>m m'. post_init_ignored_match ext m = Inr m' \<longrightarrow> post_init_ignored_match ext m' = Inr m'"
  shows "finite (ignored_detectors s) \<and> finite (ignored_paths s)
       \<and> (\<forall>m \<in> set (ignored_matches s). post_init_ignored_match ext m = Inr m)"
proof -
  from assms(1) obtain ss detectors matches paths
    where det: "load_field d ''ignored_detectors''
                  (load_str_set (path @ [''ignored_detectors''])) {} = Inr detectors"
      and pat: "load_field d ''ignored_paths''
                  (load_str_set (path @ [''ignored_paths''])) {} = Inr paths"
      and init: "SecretConfig_init ext ss detectors matches paths = Inr s"
    unfolding SecretConfigSchema_load_def by (auto simp: and_then_eq_Inr)
  from init obtain matches'
    where post: "post_init_all (post_init_ignored_match ext) matches = Inr matches'"
      and s: "s = \<lparr>show_secrets = ss, ignored_detectors = detectors,
                   ignored_matches = matches', ignored_paths = paths\<rparr>"
    by (auto simp: SecretConfig_init_def and_then_eq_Inr)
  from post_init_all_results [OF post] assms(2)
  have "\<forall>m \<in> set matches'. post_init_ignored_match ext m = Inr m"
    by blast
  with det pat s show ?thesis
    by (simp add: load_field_str_set_finite)
qed

lemma IaCConfigSchema_load_sound:
  assumes "IaCConfigSchema_load ext path d = Inr i"
  shows "finite (iac_ignored_paths i) \<and> finite (ignored_policies i)"
proof -
  from assms obtain paths policies severity
    where "load_field d ''ignored_paths'' (load_str_set (path @ [''ignored_paths''])) {} = Inr paths"
      and "load_field d ''ignored_policies''
             (load_str_set (path @ [''ignored_policies''])) {} = Inr policies"
      and "i = \<lparr>iac_ignored_paths = paths, ignored_policies = policies,
                minimum_severity = severity\<rparr>"
    unfolding IaCConfigSchema_load_def by (auto simp: and_then_eq_Inr)
  then show ?thesis
    by (simp add: load_field_str_set_finite)
qed

lemma load_field_nested_cases:
  assumes "load_field d k (load_nested p g) dflt = Inr x"
  shows "x = dflt \<or> (\<exists>sd. g sd = Inr x)"
proof (cases "map_of d k")
  case None
  with assms show ?thesis
    by (simp add: load_field_def)
next
  case (Some v)
  with assms have "load_nested p g v = Inr x"
    by (simp add: load_field_def)
  then have "\<exists>sd. g sd = Inr x"
    by (cases v) (simp_all add: load_nested_def, blast)
  then show ?thesis ..
qed

lemma UserConfigSchema_load_sound:
  assumes "UserConfigSchema_load ext D = Inr c"
    and "\<forall>m m'. post_init_ignored_match ext m = Inr m' \<longrightarrow> post_init_ignored_match ext m' = Inr m'"
  shows "finite (iac_ignored_paths (iac c)) \<and> finite (ignored_policies (iac c))
       \<and> finite (ignored_detectors (secret c)) \<and> finite (ignored_paths (secret c))
       \<and> (\<forall>m \<in> set (ignored_matches (secret c)). post_init_ignored_match ext m = Inr m)"
proof -
  from assms(1) have
    i: "load_field D ''iac'' (load_nested [''iac''] (IaCConfigSchema_load ext [''iac'']))
          IaCConfig_default = Inr (iac c)"
    and s: "load_field D ''secret''
          (load_nested [''secret''] (SecretConfigSchema_load ext [''secret'']))
          SecretConfig_default = Inr (secret c)"
    unfolding UserConfigSchema_load_def by (auto simp: and_then_eq_Inr)
  from load_field_nested_cases [OF i]
  have "finite (iac_ignored_paths (iac c)) \<and> finite (ignored_policies (iac c))"
  proof
    assume "iac c = IaCConfig_default"
    then show ?thesis
      by (simp add: IaCConfig_default_def)
  next
    assume "\<exists>sd. IaCConfigSchema_load ext [''iac''] sd = Inr (iac c)"
    then show ?thesis
      by (blast dest: IaCConfigSchema_load_sound)
  qed
  moreover from load_field_nested_cases [OF s]
  have "finite (ignored_detectors (secret c)) \<and> finite (ignored_paths (secret c))
       \<and> (\<forall>m \<in> set (ignored_matches (secret c)). post_init_ignored_match ext m = Inr m)"
  proof
    assume "secret c = SecretConfig_default"
    then show ?thesis
      by (simp add: SecretConfig_default_def)
  next
    assume "\<exists>sd. SecretConfigSchema_load ext [''secret''] sd = Inr (secret c)"
    then obtain sd where "SecretConfigSchema_load ext [''secret''] sd = Inr (secret c)" ..
    from SecretConfigSchema_load_sound [OF this assms(2)] show ?thesis .
  qed
  ultimately show ?thesis
    by simp
qed

lemma saved_document_without_version:
  "AList.delete ''version''
     (AList.update ''version'' v
        (remove_common_dict_items (UserConfigSchema_dump c) r))
   = remove_common_dict_items (UserConfigSchema_dump c) r"
proof -
  have "''version'' \<notin> fst ` set (UserConfigSchema_dump c)"
    by (simp add: UserConfigSchema_dump_def)
  with remove_common_dict_items_keys [of "UserConfigSchema_dump c" r]
  have "''version'' \<notin> fst ` set (remove_common_dict_items (UserConfigSchema_dump c) r)"
    by blast
  then show ?thesis
    by (simp add: AList.delete_update_same)
qed

text \<open>
  C1. Let \<open>D\<close> be a document that the current-version schema loads into a configuration.
  Then \<open>save\<close> writes a document with \<open>version\<close> 2 whose remaining keys load into the same
  configuration, and \<open>_update_from_file\<close> on the saved file leaves exactly that
  configuration. The configurations are equal, not only equal up to empty
  collections: an empty collection and an absent field load into the same value. The
  hypothesis on \<open>post_init_ignored_match\<close>, which is outside the module, is that it
  accepts unchanged an entry that it has returned.
\<close>

theorem save_then_load_roundtrip:
  "(\<forall>m m'. post_init_ignored_match ext m = Inr m' \<longrightarrow> post_init_ignored_match ext m' = Inr m')
   \<and> UserConfigSchema_load ext D = Inr cfg \<longrightarrow>
     (\<exists>dct. save_document ext cfg = Inr dct
        \<and> map_of dct ''version'' = Some (YInt 2)
        \<and> UserConfigSchema_load ext (AList.delete ''version'' dct) = Inr cfg
        \<and> save ext fs cfg config_path = Inr (fs(config_path \<mapsto> Mapping dct))
        \<and> update_from_file ext (fs(config_path \<mapsto> Mapping dct)) self config_path
            = ([], None, cfg))"
proof
  assume a: "(\<forall>m m'. post_init_ignored_match ext m = Inr m' \<longrightarrow>
                 post_init_ignored_match ext m' = Inr m')
             \<and> UserConfigSchema_load ext D = Inr cfg"
  let ?pruned = "remove_common_dict_items (UserConfigSchema_dump cfg)
                   (UserConfigSchema_dump UserConfig_default)"
  let ?dct = "AList.update ''version'' (YInt 2) ?pruned"
  from a have sound: "finite (iac_ignored_paths (iac cfg)) \<and> finite (ignored_policies (iac cfg))
       \<and> finite (ignored_detectors (secret cfg)) \<and> finite (ignored_paths (secret cfg))
       \<and> (\<forall>m \<in> set (ignored_matches (secret cfg)). post_init_ignored_match ext m = Inr m)"
    using UserConfigSchema_load_sound [of ext D cfg] by blast
  then have reload: "UserConfigSchema_load ext ?pruned = Inr cfg"
    by (simp add: UserConfigSchema_roundtrip)
  have saved: "save_document ext cfg = Inr ?dct"
    by (simp add: save_document_def UserConfigSchema_load_empty CURRENT_CONFIG_VERSION_def)
  have version: "map_of ?dct ''version'' = Some (YInt 2)"
    by (rule map_of_update_same)
  have rest: "AList.delete ''version'' ?dct = ?pruned"
    by (rule saved_document_without_version)
  have written: "save ext fs cfg config_path = Inr (fs(config_path \<mapsto> Mapping ?dct))"
    by (simp add: save_def saved save_yaml_def)
  have "update_from_file ext (fs(config_path \<mapsto> Mapping ?dct)) self config_path
          = ([], None, cfg)"
    by (simp add: update_from_file_def load_yaml_def Let_def version rest reload
        update_from_other_instance_src del: AList.update.simps)
  with saved version rest reload written
  show "\<exists>dct. save_document ext cfg = Inr dct
        \<and> map_of dct ''version'' = Some (YInt 2)
        \<and> UserConfigSchema_load ext (AList.delete ''version'' dct) = Inr cfg
        \<and> save ext fs cfg config_path = Inr (fs(config_path \<mapsto> Mapping dct))
        \<and> update_from_file ext (fs(config_path \<mapsto> Mapping dct)) self config_path
            = ([], None, cfg)"
    by (intro exI [of _ ?dct]) simp
qed

theorem save_then_load_roundtrip_witness:
  "post_init_ignored_match example_externals = Inr
   \<and> UserConfigSchema_load example_externals
       [(''verbose'', YBool True),
        (''secret'', YDict [(''ignored_paths'', YList [YStr ''b'', YStr ''a'']),
                            (''ignored_detectors'', YList [])])]
     = Inr (UserConfig_default\<lparr>verbose := True,
              secret := SecretConfig_default\<lparr>ignored_paths := {''a'', ''b''}\<rparr>\<rparr>)
   \<and> (\<exists>dct. save_document example_externals
                (UserConfig_default\<lparr>verbose := True,
                   secret := SecretConfig_default\<lparr>ignored_paths := {''a'', ''b''}\<rparr>\<rparr>) = Inr dct
        \<and> map_of dct ''version'' = Some (YInt 2)
        \<and> UserConfigSchema_load example_externals (AList.delete ''version'' dct)
            = Inr (UserConfig_default\<lparr>verbose := True,
                     secret := SecretConfig_default\<lparr>ignored_paths := {''a'', ''b''}\<rparr>\<rparr>))"
proof -
  let ?D = "[(''verbose'', YBool True),
             (''secret'', YDict [(''ignored_paths'', YList [YStr ''b'', YStr ''a'']),
                                 (''ignored_detectors'', YList [])])]"
  let ?c = "UserConfig_default\<lparr>verbose := True,
              secret := SecretConfig_default\<lparr>ignored_paths := {''a'', ''b''}\<rparr>\<rparr>"
  have idem: "\<forall>m m'. post_init_ignored_match example_externals m = Inr m' \<longrightarrow>
            post_init_ignored_match example_externals m' = Inr m'"
    by (simp add: example_externals_def)
  have nested: "SecretConfigSchema_load example_externals [''secret'']
         [(''ignored_paths'', YList [YStr ''b'', YStr ''a'']), (''ignored_detectors'', YList [])]
       = Inr (SecretConfig_default\<lparr>ignored_paths := {''a'', ''b''}\<rparr>)"
    by (auto simp: SecretConfigSchema_load_def check_unknown_def load_field_def load_str_set_def
        load_list_def load_str_def SecretConfig_init_def example_externals_def
        SecretConfig_default_def)
  have loaded: "UserConfigSchema_load example_externals ?D = Inr ?c"
    by (simp add: UserConfigSchema_load_def check_unknown_def load_field_def load_nested_def
        nested load_bool_def UserConfig_default_def)
  from save_then_load_roundtrip [of example_externals ?D ?c] idem loaded
  have "\<exists>dct. save_document example_externals ?c = Inr dct
        \<and> map_of dct ''version'' = Some (YInt 2)
        \<and> UserConfigSchema_load example_externals (AList.delete ''version'' dct) = Inr ?c"
    by blast
  moreover have "post_init_ignored_match example_externals = Inr"
    by (simp add: example_externals_def)
  ultimately show ?thesis
    using loaded by blast
qed

end
